theory Spec2Isabelle
  imports Complex_Main "HOL-Library.AList"
begin

section \<open>Conventions of the embedding\<close>

text \<open>
  The program is a JavaScript bot made of manager classes that share one bot object.
  Each class becomes a record of the fields it owns; a method becomes a function that
  takes the record (and the parts of the bot it reads) and returns the updated record.

  \<^item> JavaScript numbers that hold measurements (health, distances, scores) are modelled
    as \<open>real\<close>: the rounding of IEEE doubles, \<open>NaN\<close> and the infinities are not part of
    the model. Where the source rounds an intermediate result to a double, the model
    keeps the exact value, so a computed number of the model is the source's only up
    to that rounding; the properties below that state a number do so at inputs whose
    intermediate values are all exact doubles. Counters and millisecond timestamps
    are \<open>nat\<close>.
  \<^item> A \<open>string\<close> is a JavaScript string whose UTF-16 code units are all below 256,
    one \<open>char\<close> for each code unit.
  \<^item> A lookup \<open>table[key] || default\<close> in an object literal is modelled for the keys
    that are not names of properties of \<open>Object.prototype\<close>, as the entity types
    and event names of the game are; \<open>setRetreatCooldown\<close>, whose reason is any
    string, is modelled for those names too.
  \<^item> \<open>Date.now()\<close> is the argument \<open>now\<close> of the operation that reads it; time does
    not advance inside one operation.
  \<^item> An \<open>async\<close> method is modelled by its sequential run to completion; what other
    callbacks do while it is suspended at an \<open>await\<close> is not modelled.
  \<^item> A thrown exception is the \<open>Inl\<close> branch of a sum, or an optional error
    next to the state the method has reached when it throws. What Node.js does
    with an exception that escapes a timer or a listener (an unhandled rejection) is
    outside the model.
\<close>

section \<open>The bot object as the managers read it\<close>

record position =
  px :: real
  py :: real
  pz :: real

text \<open>
  A value of the map \<open>bot.entities\<close>: the packet stored by the \<open>add_entity\<close> handler.
  The combat code reads three of its properties: \<open>entity.type\<close>, \<open>entity.id\<close> and
  \<open>entity.position || entity\<close>. \<open>None\<close> is a property that is absent; an entity
  without coordinates has \<open>eposition = None\<close> (its distance is \<open>NaN\<close> in the source,
  and every comparison with it is false).
\<close>

record entity =
  etype :: "string option"
  eid :: "nat option"
  eposition :: "position option"

text \<open>
  \<open>bot.entities\<close> is a JavaScript \<open>Map\<close> from runtime ids to entities: an association
  list in insertion order, which is the order in which the source iterates over it.
\<close>

record bot =
  connected :: bool
  botPosition :: position
  health :: real
  maxHealth :: real
  food :: real
  entities :: "(nat \<times> entity) list"
  debugMode :: bool
  timeDay :: "nat option"

section \<open>CombatManager: state\<close>

datatype threat_level = NONE | LOW | MEDIUM | HIGH | CRITICAL

datatype approach = AGGRESSIVE | DEFENSIVE | BALANCED | RETREAT

datatype js_error = TypeError | Error

text \<open>
  A strategy: \<open>sapproach\<close> is its field \<open>approach\<close>; the field \<open>confidence\<close> of a
  parsed strategy is not read by the methods modelled here and is left out.
\<close>

record strategy =
  sapproach :: approach
  tactics :: "string list"
  risk :: string
  expectedOutcome :: string
  backup :: string
  aiGenerated :: bool

text \<open>
  A combat target is an element of \<open>getNearbyHostileEntities()\<close>:
  \<open>{...entity, id, distance, threat}\<close>, where \<open>id\<close> is the key of the entity in
  \<open>bot.entities\<close>.
\<close>

record target =
  ttype :: "string option"
  tid :: nat
  tposition :: "position option"
  tdistance :: real
  tthreat :: int

record combat_stats =
  totalFights :: nat
  wins :: nat
  losses :: nat
  escapes :: nat
  damageDealt :: real
  damageTaken :: real
  totalCombatTime :: int
  averageFightDuration :: real
  killStreak :: nat
  bestKillStreak :: nat

text \<open>
  \<open>this.config\<close>, without the fields that the methods modelled here do not read
  (\<open>riskTolerance\<close>, \<open>strategicThinking\<close>, \<open>useConsumables\<close>, \<open>teamworkEnabled\<close>).
\<close>

record combat_config =
  attackCooldown :: nat
  criticalHealthThreshold :: real
  fleeHealthThreshold :: real
  maxCombatRange :: real
  optimalCombatRange :: real
  retreatDistance :: real
  aggressionLevel :: real
  priorityTargets :: "string list"

text \<open>An element of \<open>combatHistory\<close>: pushed by \<open>recordCombatStart\<close>, completed by \<open>endCombat\<close>.\<close>

record combat_record =
  hstartTime :: nat
  htarget :: "string option"
  botHealthStart :: real
  hstrategy :: "approach option"
  hendTime :: "nat option"
  hduration :: "int option"
  houtcome :: "string option"
  botHealthEnd :: "real option"

text \<open>
  What the combat manager does to the outside, in the order it does it: the events it
  emits on itself, the chat lines and movement requests it hands to the bot and the
  navigation manager, and the notifications to the learning manager.
\<close>

datatype effect =
    Emit_combat_start target
  | Emit_combat_end string int
  | SendChat_engaging "string option" approach
  | SendChat_retreat string
  | MoveToPosition position
  | LearnFromCombat string int
  | Emit_threat_level_changed threat_level threat_level

text \<open>
  The inventory manager as the combat code calls it. A method the object does not have
  is \<open>None\<close>: calling it throws a \<open>TypeError\<close>.
\<close>

record inventory =
  getWeaponDurability :: "real option"
  hasHealingItems :: "bool option"
  getArmorLevel :: "real option"

text \<open>
  \<open>this.managers\<close>: \<open>navigation\<close> is the outcome of \<open>moveToPosition\<close> when the
  navigation manager is present (it throws while the bot is not connected).
\<close>

record managers =
  navigation :: "(position \<Rightarrow> js_error option) option"
  learning :: bool
  inventory :: "inventory option"

text \<open>
  The fields of the \<open>CombatManager\<close>. \<open>registrations\<close> counts the calls of
  \<open>setupCombatEventHandlers\<close>: each call adds one more listener for \<open>combat_start\<close>
  and \<open>combat_end\<close> (and for the bot's \<open>entity_removed\<close>). \<open>retreatCooldownEnd\<close> is
  \<open>None\<close> until \<open>setRetreatCooldown\<close> assigns it. The key of \<open>aiDecisionCache\<close> is
  the triple that the source formats into the string \<open>type_health_distance\<close>.
\<close>

text \<open>
  The value that \<open>setRetreatCooldown\<close> stores: a timestamp, or the string that
  \<open>Date.now() + f\<close> is when the table lookup returns an inherited function or
  object \<open>f\<close>. Such a string is truthy and converts to \<open>NaN\<close>.
\<close>

datatype cooldown_end = Timestamp nat | Not_a_number

record combat =
  inCombat :: bool
  currentTarget :: "target option"
  currentStrategy :: "strategy option"
  combatHistory :: "combat_record list"
  lastAttackTime :: nat
  lastDamageTime :: nat
  combatStartTime :: nat
  threatLevel :: threat_level
  combatStats :: combat_stats
  config :: combat_config
  aiDecisionCache :: "((string option \<times> real \<times> real) \<times> strategy) list"
  lastAIConsultation :: nat
  aiConsultationCooldown :: nat
  retreatCooldownEnd :: "cooldown_end option"
  registrations :: nat
  cmanagers :: managers
  effects :: "effect list"

definition initial_combatStats :: combat_stats where
  "initial_combatStats =
     \<lparr>totalFights = 0, wins = 0, losses = 0, escapes = 0, damageDealt = 0, damageTaken = 0,
      totalCombatTime = 0, averageFightDuration = 0, killStreak = 0, bestKillStreak = 0\<rparr>"

definition initial_config :: combat_config where
  "initial_config =
     \<lparr>attackCooldown = 600, criticalHealthThreshold = 6, fleeHealthThreshold = 4,
      maxCombatRange = 20, optimalCombatRange = 3, retreatDistance = 15,
      aggressionLevel = 7 / 10,
      priorityTargets =
        [''minecraft:ender_dragon'', ''minecraft:wither'', ''minecraft:elder_guardian'',
         ''minecraft:blaze'', ''minecraft:enderman'', ''minecraft:creeper'',
         ''minecraft:zombie'', ''minecraft:skeleton'', ''minecraft:spider'']\<rparr>"

text \<open>The state the constructor leaves (\<open>this.managers = null\<close>: no manager is present).\<close>

definition initial_combat :: combat where
  "initial_combat =
     \<lparr>inCombat = False, currentTarget = None, currentStrategy = None, combatHistory = [],
      lastAttackTime = 0, lastDamageTime = 0, combatStartTime = 0, threatLevel = NONE,
      combatStats = initial_combatStats, config = initial_config, aiDecisionCache = [],
      lastAIConsultation = 0, aiConsultationCooldown = 5000, retreatCooldownEnd = None,
      registrations = 0,
      cmanagers = \<lparr>navigation = None, learning = False, inventory = None\<rparr>,
      effects = []\<rparr>"

section \<open>CombatManager: threat assessment\<close>

text \<open>\<open>Math.round\<close>: the nearest integer, a tie going towards plus infinity.\<close>

definition Math_round :: "real \<Rightarrow> int" where
  "Math_round x = \<lfloor>x + 1 / 2\<rfloor>"

definition hostileTypes :: "string list" where
  "hostileTypes =
     [''minecraft:zombie'', ''minecraft:skeleton'', ''minecraft:creeper'', ''minecraft:spider'',
      ''minecraft:enderman'', ''minecraft:blaze'', ''minecraft:ghast'', ''minecraft:witch'',
      ''minecraft:ender_dragon'', ''minecraft:wither'', ''minecraft:elder_guardian'',
      ''minecraft:guardian'', ''minecraft:shulker'', ''minecraft:phantom'']"

definition isHostileEntity :: "string option \<Rightarrow> bool" where
  "isHostileEntity ty = (case ty of None \<Rightarrow> False | Some t \<Rightarrow> t \<in> set hostileTypes)"

text \<open>
  The table \<open>baseThreat\<close> of \<open>calculateEntityThreat\<close>, with the \<open>|| 20\<close> default of
  the lookup. \<open>None\<close> is an entity without a \<open>type\<close> property.
\<close>

definition baseThreat :: "string option \<Rightarrow> real" where
  "baseThreat ty =
     (if ty = Some ''minecraft:ender_dragon'' then 100
      else if ty = Some ''minecraft:wither'' then 90
      else if ty = Some ''minecraft:elder_guardian'' then 80
      else if ty = Some ''minecraft:blaze'' then 70
      else if ty = Some ''minecraft:creeper'' then 60
      else if ty = Some ''minecraft:enderman'' then 50
      else if ty = Some ''minecraft:skeleton'' then 40
      else if ty = Some ''minecraft:zombie'' then 30
      else if ty = Some ''minecraft:spider'' then 25
      else if ty = Some ''minecraft:phantom'' then 45
      else 20)"

text \<open>
  \<open>calculateEntityThreat(entity)\<close> reads \<open>entity.type\<close> and \<open>entity.distance\<close>, its
  two last arguments here. The distance factor is applied only when
  \<open>entity.distance\<close> is truthy: a missing distance (\<open>None\<close>) and the distance \<open>0\<close>
  both skip it. The model is the source's for \<open>maxHealth \<noteq> 0\<close> and
  \<open>maxCombatRange \<noteq> 0\<close> (JavaScript divides by zero into an infinity or \<open>NaN\<close>).
  The products and quotients are exact here and rounded to doubles in the source, so
  where the exact value before \<open>Math.round\<close> is a tie or next to one the two results
  can differ by one.
\<close>

definition calculateEntityThreat ::
  "combat \<Rightarrow> bot \<Rightarrow> string option \<Rightarrow> real option \<Rightarrow> int" where
  "calculateEntityThreat cm b ty distance =
     (let threat = baseThreat ty;
          threat = (case distance of
                      None \<Rightarrow> threat
                    | Some d \<Rightarrow>
                        if d = 0 then threat
                        else threat * max (1 / 10) (1 - d / maxCombatRange (config cm)));
          healthFactor = 1 + (1 - health b / maxHealth b);
          threat = threat * healthFactor
      in Math_round threat)"

definition determineThreatLevel :: "real \<Rightarrow> threat_level" where
  "determineThreatLevel maxThreat =
     (if maxThreat \<ge> 80 then CRITICAL
      else if maxThreat \<ge> 60 then HIGH
      else if maxThreat \<ge> 40 then MEDIUM
      else if maxThreat \<ge> 20 then LOW
      else NONE)"

text \<open>\<open>calculateDistance\<close>; \<open>None\<close> when the second position has no coordinates.\<close>

definition calculateDistance :: "position \<Rightarrow> position option \<Rightarrow> real option" where
  "calculateDistance pos1 pos2 =
     (case pos2 of
        None \<Rightarrow> None
      | Some p \<Rightarrow>
          (let dx = px pos1 - px p; dy = py pos1 - py p; dz = pz pos1 - pz p
           in Some (sqrt (dx * dx + dy * dy + dz * dz))))"

text \<open>
  \<open>getNearbyHostileEntities\<close>: the hostile entities within \<open>maxCombatRange\<close>, each
  with its key, its distance and its threat, sorted by decreasing threat
  (\<open>Array.prototype.sort\<close> is stable, as \<open>sort_key\<close> is). The threat is computed
  from the stored entity, which carries no \<open>distance\<close> property.
\<close>

definition nearbyEntry :: "combat \<Rightarrow> bot \<Rightarrow> nat \<times> entity \<Rightarrow> target list" where
  "nearbyEntry cm b kv =
     (case kv of (k, e) \<Rightarrow>
        if isHostileEntity (etype e) then
          (case calculateDistance (botPosition b) (eposition e) of
             None \<Rightarrow> []
           | Some d \<Rightarrow>
               if d \<le> maxCombatRange (config cm)
               then [\<lparr>ttype = etype e, tid = k, tposition = eposition e, tdistance = d,
                      tthreat = calculateEntityThreat cm b (etype e) None\<rparr>]
               else [])
        else [])"

definition getNearbyHostileEntities :: "combat \<Rightarrow> bot \<Rightarrow> target list" where
  "getNearbyHostileEntities cm b =
     sort_key (\<lambda>t. - tthreat t) (concat (map (nearbyEntry cm b) (entities b)))"

text \<open>
  \<open>selectOptimalTarget\<close>: the first nearby entity of the first priority type that
  has one, else the nearby entity of highest threat; \<open>None\<close> is \<open>null\<close>.
\<close>

fun findPriorityTarget :: "string list \<Rightarrow> target list \<Rightarrow> target option" where
  "findPriorityTarget [] nearby = None"
| "findPriorityTarget (priorityType # rest) nearby =
     (case find (\<lambda>e. ttype e = Some priorityType) nearby of
        Some t \<Rightarrow> Some t
      | None \<Rightarrow> findPriorityTarget rest nearby)"

definition selectOptimalTarget :: "combat \<Rightarrow> bot \<Rightarrow> target option" where
  "selectOptimalTarget cm b =
     (let nearbyEntities = getNearbyHostileEntities cm b
      in case nearbyEntities of
           [] \<Rightarrow> None
         | first # _ \<Rightarrow>
             (case findPriorityTarget (priorityTargets (config cm)) nearbyEntities of
                Some t \<Rightarrow> Some t
              | None \<Rightarrow> Some first))"

section \<open>CombatManager: sessions\<close>

text \<open>
  \<open>getDefaultStrategy\<close>: the built-in table, keyed by \<open>target.type\<close>, with the
  \<open>'default'\<close> entry for every other type.
\<close>

definition getDefaultStrategy :: "target \<Rightarrow> strategy" where
  "getDefaultStrategy t =
     (if ttype t = Some ''minecraft:ender_dragon'' then
        \<lparr>sapproach = AGGRESSIVE,
         tactics = [''maintain_distance'', ''target_crystals'', ''dodge_breath''],
         risk = ''HIGH'', expectedOutcome = ''UNCERTAIN'', backup = ''RETREAT'',
         aiGenerated = False\<rparr>
      else if ttype t = Some ''minecraft:creeper'' then
        \<lparr>sapproach = DEFENSIVE,
         tactics = [''maintain_distance'', ''hit_and_run'', ''prevent_explosion''],
         risk = ''HIGH'', expectedOutcome = ''WIN'', backup = ''RETREAT'',
         aiGenerated = False\<rparr>
      else if ttype t = Some ''minecraft:enderman'' then
        \<lparr>sapproach = BALANCED,
         tactics = [''avoid_eye_contact'', ''use_projectiles'', ''height_advantage''],
         risk = ''MEDIUM'', expectedOutcome = ''WIN'', backup = ''RETREAT'',
         aiGenerated = False\<rparr>
      else
        \<lparr>sapproach = BALANCED,
         tactics = [''optimal_range'', ''timing_attacks'', ''health_monitor''],
         risk = ''MEDIUM'', expectedOutcome = ''WIN'', backup = ''RETREAT'',
         aiGenerated = False\<rparr>)"

text \<open>
  \<open>consultAIForCombatStrategy\<close>. The argument \<open>ai\<close> is the outcome of the body of
  its \<open>try\<close> block (building the prompt, \<open>bot.generateAIResponse\<close>,
  \<open>parseCombatStrategy\<close>): the strategy parsed from the reply, or an exception. The
  text of the prompt and the parsing of the reply are not modelled.
\<close>

definition consultAIForCombatStrategy ::
  "nat \<Rightarrow> js_error + strategy \<Rightarrow> bot \<Rightarrow> target \<Rightarrow> combat \<Rightarrow> strategy \<times> combat" where
  "consultAIForCombatStrategy now ai b t cm =
     (let cacheKey = (ttype t, health b, tdistance t)
      in if int now - int (lastAIConsultation cm) < int (aiConsultationCooldown cm) then
           (case map_of (aiDecisionCache cm) cacheKey of
              Some s \<Rightarrow> (s, cm)
            | None \<Rightarrow> (getDefaultStrategy t, cm))
         else
           (let cm1 = cm\<lparr>lastAIConsultation := now\<rparr>
            in case ai of
                 Inr s \<Rightarrow>
                   (s, cm1\<lparr>aiDecisionCache := AList.update cacheKey s (aiDecisionCache cm1)\<rparr>)
               | Inl err \<Rightarrow> (getDefaultStrategy t, cm1)))"

text \<open>
  \<open>recordCombatStart\<close>, the body of each \<open>combat_start\<close> listener.
\<close>

definition recordCombatStart :: "nat \<Rightarrow> bot \<Rightarrow> target \<Rightarrow> combat \<Rightarrow> combat" where
  "recordCombatStart now b t cm =
     cm\<lparr>combatHistory := combatHistory cm @
          [\<lparr>hstartTime = now, htarget = ttype t, botHealthStart = health b,
            hstrategy = map_option sapproach (currentStrategy cm),
            hendTime = None, hduration = None, houtcome = None, botHealthEnd = None\<rparr>]\<rparr>"

text \<open>
  \<open>initiateCombat\<close>. \<open>inCombat\<close> is set before the first \<open>await\<close>. The event
  \<open>combat_start\<close> runs one \<open>recordCombatStart\<close> for each registered listener.
  \<open>bot.sendChat\<close> is the bot's safe sender, which catches its own failures.
\<close>

definition initiateCombat ::
  "nat \<Rightarrow> js_error + strategy \<Rightarrow> bot \<Rightarrow> combat \<Rightarrow> combat" where
  "initiateCombat now ai b cm =
     (case selectOptimalTarget cm b of
        None \<Rightarrow> cm
      | Some t \<Rightarrow>
          (let cm1 = cm\<lparr>inCombat := True, currentTarget := Some t, combatStartTime := now\<rparr>;
               (s, cm2) = consultAIForCombatStrategy now ai b t cm1;
               cm3 = cm2\<lparr>currentStrategy := Some s\<rparr>;
               cm4 = cm3\<lparr>effects := effects cm3 @ [Emit_combat_start t]\<rparr>;
               cm5 = (recordCombatStart now b t ^^ registrations cm4) cm4
           in cm5\<lparr>effects := effects cm5 @ [SendChat_engaging (ttype t) (sapproach s)]\<rparr>))"

text \<open>
  The statistics part of \<open>endCombat\<close>: the three assignments before the \<open>switch\<close>,
  then the \<open>switch\<close> on the outcome.
\<close>

definition updateStatistics :: "string \<Rightarrow> int \<Rightarrow> combat_stats \<Rightarrow> combat_stats" where
  "updateStatistics outcome combatDuration st =
     (let st1 = st\<lparr>totalFights := totalFights st + 1\<rparr>;
          st2 = st1\<lparr>totalCombatTime := totalCombatTime st1 + combatDuration\<rparr>;
          st3 = st2\<lparr>averageFightDuration :=
                       real_of_int (totalCombatTime st2) / real (totalFights st2)\<rparr>
      in if outcome = ''TARGET_DEFEATED'' then
           (let st4 = st3\<lparr>wins := wins st3 + 1\<rparr>;
                st5 = st4\<lparr>killStreak := killStreak st4 + 1\<rparr>
            in if killStreak st5 > bestKillStreak st5
               then st5\<lparr>bestKillStreak := killStreak st5\<rparr> else st5)
         else if outcome = ''RETREAT'' then
           (let st4 = st3\<lparr>escapes := escapes st3 + 1\<rparr> in st4\<lparr>killStreak := 0\<rparr>)
         else
           (let st4 = st3\<lparr>losses := losses st3 + 1\<rparr> in st4\<lparr>killStreak := 0\<rparr>))"

text \<open>The history part of \<open>endCombat\<close>: the last entry, if there is one, is completed.\<close>

definition updateCombatHistory ::
  "string \<Rightarrow> int \<Rightarrow> nat \<Rightarrow> bot \<Rightarrow> combat_record list \<Rightarrow> combat_record list" where
  "updateCombatHistory outcome combatDuration now b h =
     (if length h > 0 then
        butlast h @
          [(last h)\<lparr>hendTime := Some now, hduration := Some combatDuration,
                    houtcome := Some outcome, botHealthEnd := Some (health b)\<rparr>]
      else h)"

text \<open>
  \<open>endCombat(outcome)\<close>. The first component of the result is the exception that
  escapes, if any: every \<open>combat_end\<close> listener calls \<open>this.recordCombatEnd\<close>, a
  method the class does not define, so with a listener registered the \<open>emit\<close> throws
  a \<open>TypeError\<close> after the state has been updated and before the learning manager
  is notified.
\<close>

definition endCombat :: "string \<Rightarrow> nat \<Rightarrow> bot \<Rightarrow> combat \<Rightarrow> js_error option \<times> combat" where
  "endCombat outcome now b cm =
     (if \<not> inCombat cm then (None, cm)
      else
        (let cm1 = cm\<lparr>inCombat := False\<rparr>;
             combatDuration = int now - int (combatStartTime cm1);
             cm2 = cm1\<lparr>combatStats := updateStatistics outcome combatDuration (combatStats cm1)\<rparr>;
             cm3 = cm2\<lparr>combatHistory :=
                         updateCombatHistory outcome combatDuration now b (combatHistory cm2)\<rparr>;
             cm4 = cm3\<lparr>currentTarget := None, currentStrategy := None\<rparr>;
             cm5 = cm4\<lparr>effects := effects cm4 @ [Emit_combat_end outcome combatDuration]\<rparr>
         in if registrations cm5 > 0 then (Some TypeError, cm5)
            else if learning (cmanagers cm5) then
              (None, cm5\<lparr>effects := effects cm5 @ [LearnFromCombat outcome combatDuration]\<rparr>)
            else (None, cm5)))"

definition isTargetValid :: "combat \<Rightarrow> bot \<Rightarrow> target \<Rightarrow> bool" where
  "isTargetValid cm b t =
     (case map_of (entities b) (tid t) of
        None \<Rightarrow> False
      | Some e \<Rightarrow>
          (case calculateDistance (botPosition b) (eposition e) of
             None \<Rightarrow> False
           | Some d \<Rightarrow> d \<le> maxCombatRange (config cm)))"

text \<open>\<open>findSafePosition\<close>; \<open>r1\<close> and \<open>r2\<close> are the two values of \<open>Math.random()\<close>.\<close>

definition findSafePosition :: "real \<times> real \<Rightarrow> bot \<Rightarrow> position" where
  "findSafePosition rnd b =
     \<lparr>px = px (botPosition b) + (fst rnd - 1 / 2) * 30,
      py = py (botPosition b) + 5,
      pz = pz (botPosition b) + (snd rnd - 1 / 2) * 30\<rparr>"

text \<open>
  \<open>executeRetreat(reason)\<close>: a movement request when a navigation manager is
  present (its exception escapes), then \<open>endCombat('RETREAT')\<close>, then a chat line.
\<close>

definition executeRetreat ::
  "string \<Rightarrow> nat \<Rightarrow> real \<times> real \<Rightarrow> bot \<Rightarrow> combat \<Rightarrow> js_error option \<times> combat" where
  "executeRetreat reason now rnd b cm =
     (let moved =
            (case navigation (cmanagers cm) of
               None \<Rightarrow> (None, cm)
             | Some moveToPosition \<Rightarrow>
                 (let safePos = findSafePosition rnd b
                  in (moveToPosition safePos,
                      cm\<lparr>effects := effects cm @ [MoveToPosition safePos]\<rparr>)))
      in case moved of
           (Some err, cm1) \<Rightarrow> (Some err, cm1)
         | (None, cm1) \<Rightarrow>
             (case endCombat ''RETREAT'' now b cm1 of
                (Some err, cm2) \<Rightarrow> (Some err, cm2)
              | (None, cm2) \<Rightarrow>
                  (None, cm2\<lparr>effects := effects cm2 @ [SendChat_retreat reason]\<rparr>)))"

text \<open>
  \<open>processCombatActions\<close>. The argument \<open>act\<close> stands for
  \<open>executeStrategyActions\<close> (the movement, attack and tactic code), whose result the
  properties below do not depend on: they hold for every \<open>act\<close>.
\<close>

definition processCombatActions ::
  "nat \<Rightarrow> real \<times> real \<Rightarrow> (strategy option \<Rightarrow> target \<Rightarrow> combat \<Rightarrow> js_error option \<times> combat) \<Rightarrow>
   bot \<Rightarrow> combat \<Rightarrow> js_error option \<times> combat" where
  "processCombatActions now rnd act b cm =
     (case currentTarget cm of
        None \<Rightarrow> (None, cm)
      | Some t \<Rightarrow>
          if \<not> inCombat cm then (None, cm)
          else if \<not> isTargetValid cm b t then endCombat ''TARGET_LOST'' now b cm
          else if health b \<le> fleeHealthThreshold (config cm)
          then executeRetreat ''LOW_HEALTH'' now rnd b cm
          else act (currentStrategy cm) t cm)"

text \<open>\<open>processCombatStateMachine\<close>, the body of the 100 ms timer.\<close>

definition processCombatStateMachine ::
  "nat \<Rightarrow> js_error + strategy \<Rightarrow> real \<times> real \<Rightarrow>
   (strategy option \<Rightarrow> target \<Rightarrow> combat \<Rightarrow> js_error option \<times> combat) \<Rightarrow>
   bot \<Rightarrow> combat \<Rightarrow> js_error option \<times> combat" where
  "processCombatStateMachine now ai rnd act b cm =
     (if \<not> inCombat cm \<and> threatLevel cm \<noteq> NONE then (None, initiateCombat now ai b cm)
      else if inCombat cm then processCombatActions now rnd act b cm
      else (None, cm))"

text \<open>
  \<open>handleEntityRemoved\<close>, the listener of the bot's \<open>entity_removed\<close> event. It
  does not await \<open>endCombat\<close>, so an exception of \<open>endCombat\<close> does not reach it.
\<close>

definition handleEntityRemoved :: "entity \<Rightarrow> nat \<Rightarrow> bot \<Rightarrow> combat \<Rightarrow> combat" where
  "handleEntityRemoved e now b cm =
     (case currentTarget cm of
        None \<Rightarrow> cm
      | Some t \<Rightarrow>
          if eid e = Some (tid t) then snd (endCombat ''TARGET_DEFEATED'' now b cm) else cm)"

text \<open>
  The bot's handler of the \<open>remove_entity\<close> packet, the only code that deletes from
  \<open>bot.entities\<close>: it emits \<open>entity_removed\<close> with the stored entity, which runs
  \<open>handleEntityRemoved\<close> once for each registration, and then deletes the key.
\<close>

definition remove_entity :: "nat \<Rightarrow> nat \<Rightarrow> bot \<times> combat \<Rightarrow> bot \<times> combat" where
  "remove_entity runtime_id now w =
     (case w of (b, cm) \<Rightarrow>
        (case map_of (entities b) runtime_id of
           None \<Rightarrow> (b, cm)
         | Some e \<Rightarrow>
             (b\<lparr>entities := AList.delete runtime_id (entities b)\<rparr>,
              (handleEntityRemoved e now b ^^ registrations cm) cm)))"

text \<open>
  \<open>setRetreatCooldown\<close> and \<open>canEngageInCombat\<close>. The table \<open>cooldowns\<close> is an
  object literal, so \<open>cooldowns[reason]\<close> also finds the properties it inherits from
  \<open>Object.prototype\<close>: for their names the lookup is a function or an object, the
  sum with \<open>Date.now()\<close> is a string, and the comparison \<open>Date.now() < \<close> that string
  is false.
\<close>

definition Object_prototype_properties :: "string list" where
  "Object_prototype_properties =
     [''constructor'', ''__defineGetter__'', ''__defineSetter__'', ''hasOwnProperty'',
      ''__lookupGetter__'', ''__lookupSetter__'', ''isPrototypeOf'',
      ''propertyIsEnumerable'', ''toString'', ''valueOf'', ''__proto__'',
      ''toLocaleString'']"

definition retreatCooldown :: "string \<Rightarrow> nat" where
  "retreatCooldown reason =
     (if reason = ''LOW_HEALTH'' then 30000
      else if reason = ''CRITICAL_HEALTH'' then 60000
      else if reason = ''STRATEGIC'' then 15000
      else if reason = ''SMART_RETREAT'' then 20000
      else 20000)"

definition setRetreatCooldown :: "string \<Rightarrow> nat \<Rightarrow> combat \<Rightarrow> combat" where
  "setRetreatCooldown reason now cm =
     cm\<lparr>retreatCooldownEnd :=
          Some (if reason \<in> set Object_prototype_properties then Not_a_number
                else Timestamp (now + retreatCooldown reason))\<rparr>"

definition cooldownActive :: "nat \<Rightarrow> combat \<Rightarrow> bool" where
  "cooldownActive now cm =
     (case retreatCooldownEnd cm of
        None \<Rightarrow> False
      | Some Not_a_number \<Rightarrow> False
      | Some (Timestamp e) \<Rightarrow> e \<noteq> 0 \<and> now < e)"

definition canEngageInCombat :: "nat \<Rightarrow> bot \<Rightarrow> combat \<Rightarrow> bool" where
  "canEngageInCombat now b cm =
     (if cooldownActive now cm then False
      else health b > fleeHealthThreshold (config cm) \<and> threatLevel cm \<noteq> NONE \<and> \<not> inCombat cm)"

text \<open>
  \<open>assessThreatLevel\<close>, the body of the 1000 ms timer: the largest threat among
  the nearby hostile entities (each now with its distance), and the level of it.
\<close>

definition maxThreatOf :: "combat \<Rightarrow> bot \<Rightarrow> target list \<Rightarrow> int" where
  "maxThreatOf cm b nearby =
     foldl (\<lambda>maxThreat e.
              (let threatValue = calculateEntityThreat cm b (ttype e) (Some (tdistance e))
               in if threatValue > maxThreat then threatValue else maxThreat))
       0 nearby"

definition assessThreatLevel :: "bot \<Rightarrow> combat \<Rightarrow> combat" where
  "assessThreatLevel b cm =
     (let maxThreat = maxThreatOf cm b (getNearbyHostileEntities cm b);
          newThreatLevel = determineThreatLevel (real_of_int maxThreat)
      in if newThreatLevel \<noteq> threatLevel cm
         then cm\<lparr>threatLevel := newThreatLevel,
                 effects := effects cm @ [Emit_threat_level_changed (threatLevel cm) newThreatLevel]\<rparr>
         else cm)"

text \<open>\<open>onConnect\<close> (one more registration of the listeners) and \<open>setManagers\<close>.\<close>

definition onConnect :: "combat \<Rightarrow> combat" where
  "onConnect cm = cm\<lparr>registrations := registrations cm + 1\<rparr>"

definition setManagers :: "managers \<Rightarrow> combat \<Rightarrow> combat" where
  "setManagers m cm = cm\<lparr>cmanagers := m\<rparr>"

text \<open>
  A run of the combat manager: the calls it receives, each with the inputs it reads
  (the time, the bot, the outcome of the strategy consultation, the random numbers).
\<close>

datatype combat_call =
    SetManagers managers
  | OnConnect
  | AssessThreatLevel bot
  | InitiateCombat nat "js_error + strategy" bot
  | EndCombat string nat bot
  | ExecuteRetreat string nat "real \<times> real" bot
  | HandleEntityRemoved entity nat bot
  | SetRetreatCooldown string nat

fun combat_step :: "combat \<Rightarrow> combat_call \<Rightarrow> combat" where
  "combat_step cm (SetManagers m) = setManagers m cm"
| "combat_step cm OnConnect = onConnect cm"
| "combat_step cm (AssessThreatLevel b) = assessThreatLevel b cm"
| "combat_step cm (InitiateCombat now ai b) = initiateCombat now ai b cm"
| "combat_step cm (EndCombat outcome now b) = snd (endCombat outcome now b cm)"
| "combat_step cm (ExecuteRetreat reason now rnd b) = snd (executeRetreat reason now rnd b cm)"
| "combat_step cm (HandleEntityRemoved e now b) = handleEntityRemoved e now b cm"
| "combat_step cm (SetRetreatCooldown reason now) = setRetreatCooldown reason now cm"

definition combat_run :: "combat_call list \<Rightarrow> combat" where
  "combat_run calls = foldl combat_step initial_combat calls"

text \<open>The invariant of the statistics: every fight is a win, a loss or an escape.\<close>

definition statsInvariant :: "combat_stats \<Rightarrow> bool" where
  "statsInvariant st = (totalFights st = wins st + losses st + escapes st)"

section \<open>CombatManager: the battle decision engine\<close>

text \<open>
  The factors and the score of the decision are computed in exact arithmetic here and
  in doubles in the source: where the exact score is \<open>0.5\<close> or within rounding of
  it, the field \<open>engage\<close> of the model and of the source can differ. Which of the
  two results a call has, a decision or an exception, does not depend on the
  arithmetic.
\<close>

text \<open>\<open>assessEnvironment\<close>: only the list \<open>disadvantages\<close> is read by the callers.\<close>

definition assessEnvironment_disadvantages :: "bot \<Rightarrow> string list" where
  "assessEnvironment_disadvantages b =
     (let y = py (botPosition b)
      in if y < 10 then [''confined''] else if y > 100 then [''fall_risk''] else [])"

definition isHazardousEnvironment :: bool where
  "isHazardousEnvironment = False"

definition assessEnvironmentalRisks :: "bot \<Rightarrow> real" where
  "assessEnvironmentalRisks b =
     (let env = assessEnvironment_disadvantages b;
          risk = 0;
          risk = (if ''confined'' \<in> set env then risk + 3 / 10 else risk);
          risk = (if ''fall_risk'' \<in> set env then risk + 2 / 10 else risk);
          risk = (if isHazardousEnvironment then risk + 4 / 10 else risk)
      in min 1 risk)"

text \<open>
  \<open>assessResourceRisks\<close>. With an inventory manager present it calls
  \<open>getWeaponDurability()\<close> and \<open>hasHealingItems()\<close> on it; a missing method throws.
\<close>

definition assessResourceRisks :: "combat \<Rightarrow> bot \<Rightarrow> js_error + real" where
  "assessResourceRisks cm b =
     (case inventory (cmanagers cm) of
        None \<Rightarrow>
          (let risk = 0; risk = risk + 3 / 10;
               risk = (if food b < 10 then risk + 2 / 10 else risk)
           in Inr (min 1 risk))
      | Some im \<Rightarrow>
          (case getWeaponDurability im of
             None \<Rightarrow> Inl TypeError
           | Some weaponDurability \<Rightarrow>
               (case hasHealingItems im of
                  None \<Rightarrow> Inl TypeError
                | Some hasHealing \<Rightarrow>
                    (let risk = 0;
                         risk = (if weaponDurability < 3 / 10 then risk + 4 / 10 else risk);
                         risk = (if \<not> hasHealing then risk + 3 / 10 else risk);
                         risk = (if food b < 10 then risk + 2 / 10 else risk)
                     in Inr (min 1 risk)))))"

definition calculateRiskFactors :: "combat \<Rightarrow> bot \<Rightarrow> target \<Rightarrow> js_error + real" where
  "calculateRiskFactors cm b t =
     (let risk = 0;
          healthRatio = health b / maxHealth b;
          risk = risk + (1 - healthRatio) * (4 / 10);
          targetThreat =
            real_of_int (calculateEntityThreat cm b (ttype t) (Some (tdistance t))) / 100;
          risk = risk + targetThreat * (3 / 10);
          envRisk = assessEnvironmentalRisks b;
          risk = risk + envRisk * (2 / 10)
      in case assessResourceRisks cm b of
           Inl err \<Rightarrow> Inl err
         | Inr resourceRisk \<Rightarrow> Inr (min 1 (risk + resourceRisk * (1 / 10))))"

text \<open>\<open>getEntityCombatHistory\<close>: the fields \<open>fights\<close> and \<open>wins\<close>.\<close>

definition getEntityCombatHistory :: "combat \<Rightarrow> string option \<Rightarrow> nat \<times> nat" where
  "getEntityCombatHistory cm entityType =
     (let relevant = filter (\<lambda>c. htarget c = entityType) (combatHistory cm)
      in (length relevant,
          length (filter (\<lambda>c. houtcome c = Some ''TARGET_DEFEATED'') relevant)))"

definition getWeaponEffectiveness :: "string option \<Rightarrow> real" where
  "getWeaponEffectiveness entityType =
     (if entityType = Some ''minecraft:undead'' then 8 / 10
      else if entityType = Some ''minecraft:spider'' then 7 / 10
      else if entityType = Some ''minecraft:enderman'' then 3 / 10
      else 5 / 10)"

text \<open>\<open>getArmorProtection\<close>: \<open>managers?.inventory?.getArmorLevel() || 0.3\<close>.\<close>

definition getArmorProtection :: "combat \<Rightarrow> js_error + real" where
  "getArmorProtection cm =
     (case inventory (cmanagers cm) of
        None \<Rightarrow> Inr (3 / 10)
      | Some im \<Rightarrow>
          (case getArmorLevel im of
             None \<Rightarrow> Inl TypeError
           | Some a \<Rightarrow> Inr (if a = 0 then 3 / 10 else a)))"

definition assessEquipmentAdvantage :: "combat \<Rightarrow> target \<Rightarrow> js_error + real" where
  "assessEquipmentAdvantage cm t =
     (let weaponBonus = getWeaponEffectiveness (ttype t)
      in case getArmorProtection cm of
           Inl err \<Rightarrow> Inl err
         | Inr armorBonus \<Rightarrow> Inr (min 1 (weaponBonus + armorBonus)))"

text \<open>
  The \<open>optimalRange\<close> of the table \<open>entityWeaknesses\<close> filled by
  \<open>loadCombatKnowledge\<close>, with the \<open>|| config.optimalCombatRange\<close> default.
\<close>

definition optimalDistance :: "combat \<Rightarrow> string option \<Rightarrow> real" where
  "optimalDistance cm entityType =
     (if entityType = Some ''minecraft:creeper'' then 8
      else if entityType = Some ''minecraft:enderman'' then 15
      else if entityType = Some ''minecraft:ender_dragon'' then 20
      else optimalCombatRange (config cm))"

definition calculateSuccessProbability :: "combat \<Rightarrow> bot \<Rightarrow> target \<Rightarrow> js_error + real" where
  "calculateSuccessProbability cm b t =
     (let probability = 1 / 2;
          (fights, won) = getEntityCombatHistory cm (ttype t);
          probability =
            (if fights > 0 then (probability + real won / real fights) / 2 else probability)
      in case assessEquipmentAdvantage cm t of
           Inl err \<Rightarrow> Inl err
         | Inr equipmentBonus \<Rightarrow>
             (let probability = probability + equipmentBonus * (2 / 10);
                  healthRatio = health b / maxHealth b;
                  probability = probability + (healthRatio - 1 / 2) * (3 / 10);
                  od = optimalDistance cm (ttype t);
                  distanceScore = max 0 (1 - \<bar>tdistance t - od\<bar> / od);
                  probability = probability + distanceScore * (1 / 10)
              in Inr (max (1 / 10) (min (9 / 10) probability))))"

definition estimateLootValue :: "string option \<Rightarrow> real" where
  "estimateLootValue entityType =
     (if entityType = Some ''minecraft:ender_dragon'' then 1
      else if entityType = Some ''minecraft:wither'' then 9 / 10
      else if entityType = Some ''minecraft:blaze'' then 7 / 10
      else if entityType = Some ''minecraft:enderman'' then 6 / 10
      else if entityType = Some ''minecraft:creeper'' then 4 / 10
      else if entityType = Some ''minecraft:zombie'' then 3 / 10
      else if entityType = Some ''minecraft:skeleton'' then 3 / 10
      else if entityType = Some ''minecraft:spider'' then 2 / 10
      else 2 / 10)"

text \<open>\<open>Array.prototype.indexOf\<close>; \<open>None\<close> is the result \<open>-1\<close>.\<close>

fun indexOf :: "string list \<Rightarrow> string option \<Rightarrow> nat option" where
  "indexOf [] v = None"
| "indexOf (x # xs) v =
     (if Some x = v then Some 0 else map_option Suc (indexOf xs v))"

definition calculateStrategicValue :: "combat \<Rightarrow> bot \<Rightarrow> target \<Rightarrow> real" where
  "calculateStrategicValue cm b t =
     (let pts = priorityTargets (config cm);
          val = 0;
          val = (case indexOf pts (ttype t) of
                   None \<Rightarrow> val
                 | Some priorityIndex \<Rightarrow>
                     val + (real (length pts) - real priorityIndex) / real (length pts) * (4 / 10));
          lootValue = estimateLootValue (ttype t);
          val = val + lootValue * (3 / 10);
          threatElimination =
            real_of_int (calculateEntityThreat cm b (ttype t) (Some (tdistance t))) / 100 * (3 / 10);
          val = val + threatElimination
      in min 1 val)"

definition getTimeOfDayModifier :: "bot \<Rightarrow> real" where
  "getTimeOfDayModifier b =
     (case timeDay b of
        None \<Rightarrow> 0
      | Some day \<Rightarrow>
          if day = 0 then 0
          else (let timeOfDay = day mod 24000
                in if timeOfDay > 12000 \<and> timeOfDay < 23000 then - (1 / 10) else 0))"

text \<open>\<open>combatHistory.slice(-5)\<close> is the last five entries.\<close>

definition getStateModifier :: "combat \<Rightarrow> bot \<Rightarrow> real" where
  "getStateModifier cm b =
     (let modifier = 0;
          modifier = modifier + (aggressionLevel (config cm) - 1 / 2) * (2 / 10);
          modifier = (if killStreak (combatStats cm) > 3 then modifier + 1 / 10 else modifier);
          h = combatHistory cm;
          recentLosses =
            length (filter (\<lambda>c. houtcome c = Some ''RETREAT'' \<or> houtcome c = Some ''DEFEAT'')
                      (drop (length h - 5) h));
          modifier = modifier - real recentLosses * (5 / 100);
          timeBonus = getTimeOfDayModifier b
      in modifier + timeBonus)"

datatype reason =
    High_risk real
  | High_success_chance real
  | Valuable_target
  | Low_health
  | Kill_streak_active

text \<open>
  \<open>buildDecisionReasoning\<close>: the reasons in the order the source pushes them (the
  source joins their texts with commas; the empty list is \<open>'Standard assessment'\<close>).
\<close>

definition buildDecisionReasoning ::
  "combat \<Rightarrow> bot \<Rightarrow> real \<Rightarrow> real \<Rightarrow> real \<Rightarrow> reason list" where
  "buildDecisionReasoning cm b rsk success val =
     (if rsk > 7 / 10 then [High_risk (rsk * 100)] else []) @
     (if success > 7 / 10 then [High_success_chance (success * 100)] else []) @
     (if val > 6 / 10 then [Valuable_target] else []) @
     (if health b < maxHealth b * (1 / 2) then [Low_health] else []) @
     (if killStreak (combatStats cm) > 2 then [Kill_streak_active] else [])"

definition getRecommendedAction :: "real \<Rightarrow> string" where
  "getRecommendedAction score =
     (if score > 8 / 10 then ''AGGRESSIVE_ENGAGE''
      else if score > 6 / 10 then ''CAUTIOUS_ENGAGE''
      else if score > 4 / 10 then ''DEFENSIVE_ENGAGE''
      else if score > 2 / 10 then ''MONITOR''
      else ''RETREAT'')"

record decision =
  engage :: bool
  confidence :: real
  reasoning :: "reason list"
  recommendedAction :: string

text \<open>
  The decision matrix of \<open>shouldEngageInBattle\<close>: the local \<open>engagementScore\<close>, and
  the decision built from the three factors and the state modifier.
\<close>

definition engagementScore :: "real \<Rightarrow> real \<Rightarrow> real \<Rightarrow> real" where
  "engagementScore successProbability strategicValue riskFactors =
     successProbability * (4 / 10) + strategicValue * (3 / 10) - riskFactors * (3 / 10)"

definition decisionMatrix :: "combat \<Rightarrow> bot \<Rightarrow> real \<Rightarrow> real \<Rightarrow> real \<Rightarrow> real \<Rightarrow> decision" where
  "decisionMatrix cm b riskFactors successProbability strategicValue stateModifier =
     (let finalScore =
            engagementScore successProbability strategicValue riskFactors + stateModifier
      in \<lparr>engage = finalScore > 1 / 2,
          confidence = \<bar>finalScore - 1 / 2\<bar> * 2,
          reasoning = buildDecisionReasoning cm b riskFactors successProbability strategicValue,
          recommendedAction = getRecommendedAction finalScore\<rparr>)"

definition shouldEngageInBattle :: "combat \<Rightarrow> bot \<Rightarrow> target \<Rightarrow> js_error + decision" where
  "shouldEngageInBattle cm b t =
     (case calculateRiskFactors cm b t of
        Inl err \<Rightarrow> Inl err
      | Inr riskFactors \<Rightarrow>
          (case calculateSuccessProbability cm b t of
             Inl err \<Rightarrow> Inl err
           | Inr successProbability \<Rightarrow>
               Inr (decisionMatrix cm b riskFactors successProbability
                      (calculateStrategicValue cm b t) (getStateModifier cm b))))"

section \<open>EventManager: dispatch of one event\<close>

text \<open>
  What a handler or a middleware throws. JavaScript can throw any value:
  \<open>Nullish\<close> is \<open>null\<close> or \<open>undefined\<close>, on which reading a property throws;
  any other value is given by the properties \<open>message\<close> and \<open>name\<close> that
  \<open>recordError\<close> copies (\<open>None\<close> when the value has no such property). The text of
  \<open>error.stack\<close> is not modelled.
\<close>

record error_info =
  emessage :: "string option"
  ename :: "string option"

datatype thrown = Nullish | Thrown error_info

definition TypeError_thrown :: thrown where
  "TypeError_thrown =
     Thrown \<lparr>emessage = Some ''Cannot read properties of null'', ename = Some ''TypeError''\<rparr>"

definition ReferenceError_thrown :: thrown where
  "ReferenceError_thrown =
     Thrown \<lparr>emessage = Some ''processingTime is not defined'',
             ename = Some ''ReferenceError''\<rparr>"

record 'a event_data =
  evname :: string
  evargs :: 'a
  evtimestamp :: nat
  evid :: string

record 'a error_record =
  erevent :: string
  ererror :: error_info
  erargs :: 'a
  ertimestamp :: nat

text \<open>An entry of \<open>performanceMetrics\<close>; \<open>minTime = None\<close> is the initial \<open>Infinity\<close>.\<close>

record metrics =
  mcount :: nat
  totalTime :: nat
  averageTime :: real
  maxTime :: nat
  minTime :: "nat option"

record event_config =
  maxRecentEvents :: nat
  maxErrorEvents :: nat
  enableEventLogging :: bool
  enablePerformanceTracking :: bool

text \<open>
  The fields of the \<open>EventManager\<close> that \<open>processEvent\<close> touches. \<open>emitted\<close> lists
  the names of the events emitted on the bot, in order; the dispatch of an emitted
  event to its own listeners is a separate \<open>processEvent\<close>.
\<close>

record 'a event_manager =
  totalEvents :: nat
  eventCounts :: "string \<rightharpoonup> nat"
  recentEvents :: "'a event_data list"
  errorEvents :: "'a error_record list"
  performanceMetrics :: "string \<rightharpoonup> metrics"
  econfig :: event_config
  emitted :: "string list"

definition initial_event_manager :: "bool \<Rightarrow> 'a event_manager" where
  "initial_event_manager debug =
     \<lparr>totalEvents = 0, eventCounts = Map.empty, recentEvents = [], errorEvents = [],
      performanceMetrics = Map.empty,
      econfig = \<lparr>maxRecentEvents = 100, maxErrorEvents = 50, enableEventLogging = debug,
                 enablePerformanceTracking = True\<rparr>,
      emitted = []\<rparr>"

text \<open>
  \<open>recordError(eventName, error, args)\<close>: reading \<open>error.message\<close> of \<open>null\<close> or
  \<open>undefined\<close> throws a \<open>TypeError\<close>; otherwise the record is pushed and, when the
  buffer is then longer than \<open>maxErrorEvents\<close>, its oldest element is shifted out.
\<close>

definition recordError ::
  "string \<Rightarrow> thrown \<Rightarrow> 'a \<Rightarrow> nat \<Rightarrow> 'a event_manager \<Rightarrow> thrown option \<times> 'a event_manager" where
  "recordError eventName error args now em =
     (case error of
        Nullish \<Rightarrow> (Some TypeError_thrown, em)
      | Thrown info \<Rightarrow>
          (let errorRecord =
                 \<lparr>erevent = eventName, ererror = info, erargs = args, ertimestamp = now\<rparr>;
               pushed = errorEvents em @ [errorRecord]
           in (None,
               em\<lparr>errorEvents :=
                     (if length pushed > maxErrorEvents (econfig em) then tl pushed
                      else pushed)\<rparr>)))"

definition trackEventPerformance :: "string \<Rightarrow> nat \<Rightarrow> 'a event_manager \<Rightarrow> 'a event_manager" where
  "trackEventPerformance eventName processingTime em =
     (let m0 = (case performanceMetrics em eventName of
                  None \<Rightarrow> \<lparr>mcount = 0, totalTime = 0, averageTime = 0, maxTime = 0,
                            minTime = None\<rparr>
                | Some m \<Rightarrow> m);
          m1 = m0\<lparr>mcount := mcount m0 + 1\<rparr>;
          m2 = m1\<lparr>totalTime := totalTime m1 + processingTime\<rparr>;
          m3 = m2\<lparr>averageTime := real (totalTime m2) / real (mcount m2)\<rparr>;
          m4 = m3\<lparr>maxTime := max (maxTime m3) processingTime\<rparr>;
          m5 = m4\<lparr>minTime := (case minTime m4 of
                                   None \<Rightarrow> Some processingTime
                                 | Some t \<Rightarrow> Some (min t processingTime))\<rparr>;
          em1 = em\<lparr>performanceMetrics := (performanceMetrics em)(eventName \<mapsto> m5)\<rparr>
      in if processingTime > 1000
         then em1\<lparr>emitted := emitted em1 @ [''performance_warning'']\<rparr>
         else em1)"

text \<open>
  The middleware loop of \<open>processEvent\<close>: each middleware runs in its own
  \<open>try\<close>, and what it throws is logged and dropped.
\<close>

fun runMiddlewares ::
  "('a event_data \<Rightarrow> 'a event_manager \<Rightarrow> thrown option \<times> 'a event_manager) list \<Rightarrow>
   'a event_data \<Rightarrow> 'a event_manager \<Rightarrow> 'a event_manager" where
  "runMiddlewares [] eventData em = em"
| "runMiddlewares (middleware # rest) eventData em =
     runMiddlewares rest eventData (snd (middleware eventData em))"

text \<open>
  \<open>processEvent(eventName, args, handler)\<close>. A handler and a middleware are any
  code: they take the state of the event manager and return what they throw, if
  anything, with the state they leave. \<open>mws\<close> is \<open>this.middlewares\<close>; \<open>startTime\<close>
  and \<open>endTime\<close> are the clock before and after the handler; \<open>newId\<close> is the result
  of \<open>generateEventId()\<close>. The first component of the result is the exception that
  escapes to the caller.

  \<open>beforeHandler\<close> is the part of the \<open>try\<close> block that precedes the handler: the
  counters, the buffer of recent events and the middlewares.

  With \<open>enableEventLogging\<close> set, the call of \<open>logEvent\<close> reads the constant
  \<open>processingTime\<close> outside the block that declares it, which throws a
  \<open>ReferenceError\<close> inside the \<open>try\<close>.
\<close>

definition beforeHandler ::
  "string \<Rightarrow> 'a \<Rightarrow>
   ('a event_data \<Rightarrow> 'a event_manager \<Rightarrow> thrown option \<times> 'a event_manager) list \<Rightarrow>
   nat \<Rightarrow> string \<Rightarrow> 'a event_manager \<Rightarrow> 'a event_manager" where
  "beforeHandler eventName args mws startTime newId em =
     (let em1 = em\<lparr>totalEvents := totalEvents em + 1\<rparr>;
          em2 = em1\<lparr>eventCounts := (eventCounts em1)
                  (eventName \<mapsto>
                     (case eventCounts em1 eventName of None \<Rightarrow> 0 | Some c \<Rightarrow> c) + 1)\<rparr>;
          eventData =
            \<lparr>evname = eventName, evargs = args, evtimestamp = startTime, evid = newId\<rparr>;
          pushed = recentEvents em2 @ [eventData];
          em3 = em2\<lparr>recentEvents :=
                      (if length pushed > maxRecentEvents (econfig em2) then tl pushed
                       else pushed)\<rparr>
      in runMiddlewares mws eventData em3)"

definition processEvent ::
  "string \<Rightarrow> 'a \<Rightarrow> ('a \<Rightarrow> 'a event_manager \<Rightarrow> thrown option \<times> 'a event_manager) option \<Rightarrow>
   ('a event_data \<Rightarrow> 'a event_manager \<Rightarrow> thrown option \<times> 'a event_manager) list \<Rightarrow>
   nat \<Rightarrow> nat \<Rightarrow> string \<Rightarrow> 'a event_manager \<Rightarrow> thrown option \<times> 'a event_manager" where
  "processEvent eventName args handler mws startTime endTime newId em =
     (let em4 = beforeHandler eventName args mws startTime newId em;
          (handlerThrew, em5) =
            (case handler of None \<Rightarrow> (None, em4) | Some h \<Rightarrow> h args em4)
      in case handlerThrew of
           Some error \<Rightarrow> recordError eventName error args endTime em5
         | None \<Rightarrow>
             (let em6 = (if enablePerformanceTracking (econfig em5)
                         then trackEventPerformance eventName (endTime - startTime) em5
                         else em5)
              in if enableEventLogging (econfig em6)
                 then recordError eventName ReferenceError_thrown args endTime em6
                 else (None, em6)))"

section \<open>MissionManager\<close>

text \<open>
  \<open>bot.players\<close> is a JavaScript \<open>Map\<close>, created by \<open>new Map()\<close> in the bot's
  constructor and filled by \<open>players.set\<close> in the \<open>add_player\<close> handler. A \<open>Map\<close>
  object keeps its entries in an internal slot; its own enumerable properties, which
  \<open>Object.keys\<close> lists, are a separate thing, and no code of the program adds any.
\<close>

record 'v js_Map =
  mapEntries :: "(nat \<times> 'v) list"
  ownProperties :: "(string \<times> 'v) list"

definition new_Map :: "'v js_Map" where
  "new_Map = \<lparr>mapEntries = [], ownProperties = []\<rparr>"

definition Map_set :: "nat \<Rightarrow> 'v \<Rightarrow> 'v js_Map \<Rightarrow> 'v js_Map" where
  "Map_set k v m = m\<lparr>mapEntries := AList.update k v (mapEntries m)\<rparr>"

definition Map_size :: "'v js_Map \<Rightarrow> nat" where
  "Map_size m = length (mapEntries m)"

definition Object_keys :: "'v js_Map \<Rightarrow> string list" where
  "Object_keys m = map fst (ownProperties m)"

record research =
  enderDragonKnowledge :: string
  rcurrentStrategy :: string
  requiredItems :: "string list"
  currentGoal :: string

text \<open>
  The chat lines of the mission manager, without their emoji: \<open>Preparation\<close> carries
  the goal, \<open>Welcome\<close> and \<open>Brief_quest\<close> the player's name, \<open>Brief_phase\<close> the phase.
\<close>

datatype chat =
    Mission_start
  | Researching
  | Research_complete
  | Research_snag
  | Preparation string
  | Welcome string
  | Brief_quest string
  | Brief_phase string

datatype prompt = ResearchPrompt | StrategyPrompt string

datatype mission_effect =
    Chat chat
  | GenerateContent prompt
  | BeginResourceGathering

record mission =
  missionActive :: bool
  missionStarted :: bool
  currentPhase :: string
  currentTask :: "string option"
  progressLog :: "(nat \<times> string) list"
  mresearch :: research
  mtrace :: "mission_effect list"

definition initial_mission :: mission where
  "initial_mission =
     \<lparr>missionActive = False, missionStarted = False, currentPhase = ''waiting'',
      currentTask = None, progressLog = [],
      mresearch = \<lparr>enderDragonKnowledge = [], rcurrentStrategy = [], requiredItems = [],
                   currentGoal = []\<rparr>,
      mtrace = []\<rparr>"

text \<open>
  What the mission manager reads of the bot: \<open>bot.model\<close> (\<open>None\<close> when there is no
  model; otherwise the outcome of \<open>generateContent(prompt)\<close> followed by
  \<open>result.response.text()\<close>, an exception or the text), the outcome of
  \<open>gameplayManager.beginResourceGathering()\<close> (\<open>None\<close> when the manager or the method
  is absent), and \<open>bot.players\<close>.
\<close>

record 'v mission_bot =
  model :: "(prompt \<Rightarrow> js_error + string) option"
  beginResourceGathering :: "js_error option option"
  players :: "'v js_Map"

text \<open>
  \<open>safeSendChat\<close> hands a non-blank string to \<open>bot.sendChat\<close> and swallows what
  that throws; every line the modelled methods send is non-blank.
\<close>

definition safeSendChat :: "chat \<Rightarrow> mission \<Rightarrow> mission" where
  "safeSendChat message ms = ms\<lparr>mtrace := mtrace ms @ [Chat message]\<rparr>"

definition logProgress :: "nat \<Rightarrow> string \<Rightarrow> mission \<Rightarrow> mission" where
  "logProgress now message ms = ms\<lparr>progressLog := progressLog ms @ [(now, message)]\<rparr>"

definition basicItems :: "string list" where
  "basicItems =
     [''Diamond sword'', ''Diamond pickaxe'', ''Diamond armor set'',
      ''Bow and arrows'', ''Ender pearls (12+)'', ''Blaze rods (7+)'',
      ''Food (steak/bread)'', ''Building blocks'', ''Crafting table'']"

definition basicGoal :: string where
  "basicGoal = ''Mine diamonds and gather basic resources''"

definition basicStrategy :: string where
  "basicStrategy =
     ''Gather diamonds, create equipment, explore Nether for blaze rods and ender pearls, find stronghold, defeat dragon''"

definition setBasicStrategy :: "mission \<Rightarrow> mission" where
  "setBasicStrategy ms =
     ms\<lparr>mresearch := (mresearch ms)
          \<lparr>requiredItems := basicItems, currentGoal := basicGoal,
           rcurrentStrategy := basicStrategy\<rparr>\<rparr>"

text \<open>
  \<open>startPreparationPhase\<close>: the phase is set first; an exception of
  \<open>beginResourceGathering\<close> escapes after the state is updated.
\<close>

definition startPreparationPhase ::
  "nat \<Rightarrow> 'v mission_bot \<Rightarrow> mission \<Rightarrow> js_error option \<times> mission" where
  "startPreparationPhase now b ms =
     (let ms1 = ms\<lparr>currentPhase := ''preparation''\<rparr>;
          ms2 = safeSendChat (Preparation (currentGoal (mresearch ms1))) ms1;
          ms3 = logProgress now
                  (''Preparation phase started - Goal: '' @ currentGoal (mresearch ms2)) ms2
      in case beginResourceGathering b of
           None \<Rightarrow> (None, ms3)
         | Some outcome \<Rightarrow> (outcome, ms3\<lparr>mtrace := mtrace ms3 @ [BeginResourceGathering]\<rparr>))"

text \<open>
  String helpers of the parser: \<open>split\<close> on one character and \<open>trim\<close>. The white
  space and line terminators of JavaScript among the code units below 256 are the
  seven of \<open>isWhitespace\<close>: tab, line feed, vertical tab, form feed, carriage return,
  space and no-break space.
\<close>

fun splitOn :: "char \<Rightarrow> string \<Rightarrow> string list" where
  "splitOn c [] = [[]]"
| "splitOn c (x # xs) =
     (if x = c then [] # splitOn c xs
      else (case splitOn c xs of
              [] \<Rightarrow> [[x]]
            | w # ws \<Rightarrow> (x # w) # ws))"

definition isWhitespace :: "char \<Rightarrow> bool" where
  "isWhitespace c =
     (c = CHR '' '' \<or> c = CHR 0x09 \<or> c = CHR 0x0A \<or> c = CHR 0x0B \<or> c = CHR 0x0C \<or>
      c = CHR 0x0D \<or> c = CHR 0xA0)"

definition trim :: "string \<Rightarrow> string" where
  "trim s = rev (dropWhile isWhitespace (rev (dropWhile isWhitespace s)))"

definition startsWith :: "string \<Rightarrow> string \<Rightarrow> bool" where
  "startsWith line p = (take (length p) line = p)"

text \<open>
  The loop body of \<open>parseResearchForStrategy\<close>: a line that starts with one of the
  three prefixes sets the field of that prefix (\<open>replace\<close> removes the prefix, the
  first occurrence of it in the line).
\<close>

definition parseLine :: "research \<Rightarrow> string \<Rightarrow> research" where
  "parseLine r line =
     (if startsWith line ''ITEMS:'' then
        r\<lparr>requiredItems := map trim (splitOn CHR '','' (drop 6 line))\<rparr>
      else if startsWith line ''NEXT_GOAL:'' then
        r\<lparr>currentGoal := trim (drop 10 line)\<rparr>
      else if startsWith line ''STRATEGY:'' then
        r\<lparr>rcurrentStrategy := trim (drop 9 line)\<rparr>
      else r)"

definition parseResearchForStrategy :: "'v mission_bot \<Rightarrow> string \<Rightarrow> mission \<Rightarrow> mission" where
  "parseResearchForStrategy b researchText ms =
     (case model b of
        None \<Rightarrow> setBasicStrategy ms
      | Some generateContent \<Rightarrow>
          (let ms1 = ms\<lparr>mtrace := mtrace ms @ [GenerateContent (StrategyPrompt researchText)]\<rparr>
           in case generateContent (StrategyPrompt researchText) of
                Inl err \<Rightarrow> setBasicStrategy ms1
              | Inr parsed \<Rightarrow>
                  ms1\<lparr>mresearch := foldl parseLine (mresearch ms1) (splitOn CHR 0x0A parsed)\<rparr>))"

text \<open>
  \<open>conductEnderDragonResearch\<close>. Its \<open>try\<close> block contains the calls of
  \<open>startPreparationPhase\<close>, so an exception of \<open>beginResourceGathering\<close> there also
  lands in the \<open>catch\<close> block, which is the function \<open>researchFallback\<close>.
\<close>

definition researchFallback ::
  "nat \<Rightarrow> 'v mission_bot \<Rightarrow> mission \<Rightarrow> js_error option \<times> mission" where
  "researchFallback now b ms =
     startPreparationPhase now b (setBasicStrategy (safeSendChat Research_snag ms))"

definition conductEnderDragonResearch ::
  "nat \<Rightarrow> 'v mission_bot \<Rightarrow> mission \<Rightarrow> js_error option \<times> mission" where
  "conductEnderDragonResearch now b ms =
     (let ms1 = safeSendChat Researching ms
      in case model b of
           None \<Rightarrow>
             (case startPreparationPhase now b (setBasicStrategy ms1) of
                (None, ms2) \<Rightarrow> (None, ms2)
              | (Some err, ms2) \<Rightarrow> researchFallback now b ms2)
         | Some generateContent \<Rightarrow>
             (let ms2 = ms1\<lparr>mtrace := mtrace ms1 @ [GenerateContent ResearchPrompt]\<rparr>
              in case generateContent ResearchPrompt of
                   Inl err \<Rightarrow> researchFallback now b ms2
                 | Inr researchResponse \<Rightarrow>
                     (let ms3 = ms2\<lparr>mresearch := (mresearch ms2)
                                    \<lparr>enderDragonKnowledge := researchResponse\<rparr>\<rparr>;
                          ms4 = parseResearchForStrategy b researchResponse ms3;
                          ms5 = safeSendChat Research_complete ms4;
                          ms6 = logProgress now ''Research phase completed'' ms5
                      in case startPreparationPhase now b ms6 of
                           (None, ms7) \<Rightarrow> (None, ms7)
                         | (Some err, ms7) \<Rightarrow> researchFallback now b ms7)))"

definition startEnderDragonMission ::
  "nat \<Rightarrow> 'v mission_bot \<Rightarrow> mission \<Rightarrow> js_error option \<times> mission" where
  "startEnderDragonMission now b ms =
     (if missionStarted ms then (None, ms)
      else
        (let ms1 = ms\<lparr>missionStarted := True, missionActive := True,
                       currentPhase := ''research''\<rparr>;
             ms2 = safeSendChat Mission_start ms1;
             ms3 = logProgress now ''Mission initiated - Beginning research phase'' ms2
         in conductEnderDragonResearch now b ms3))"

definition briefNewPlayer :: "string \<Rightarrow> mission \<Rightarrow> mission" where
  "briefNewPlayer playerName ms =
     (let ms1 = safeSendChat (Brief_quest playerName) ms
      in safeSendChat (Brief_phase (currentPhase ms1)) ms1)"

text \<open>
  \<open>handlePlayerJoin\<close> of the mission manager that the bot uses (the one with
  \<open>getCurrentStatus\<close> and \<open>onConnect\<close>): the mission starts when it has not started and
  \<open>Object.keys(this.bot.players).length === 1\<close>. \<open>bot.sendChat\<close> is the bot's safe
  sender, which does not throw.
\<close>

definition handlePlayerJoin ::
  "string \<Rightarrow> nat \<Rightarrow> 'v mission_bot \<Rightarrow> mission \<Rightarrow> js_error option \<times> mission" where
  "handlePlayerJoin playerName now b ms =
     (if \<not> missionStarted ms \<and> length (Object_keys (players b)) = 1
      then startEnderDragonMission now b ms
      else if missionActive ms
      then (None, briefNewPlayer playerName
                    (ms\<lparr>mtrace := mtrace ms @ [Chat (Welcome playerName)]\<rparr>))
      else (None, ms))"

text \<open>
  The bot's handler of the \<open>add_player\<close> packet: the player is stored in the map,
  then \<open>handlePlayerJoin\<close> runs twice, first through the \<open>player_joined\<close> event
  (the event manager's \<open>onPlayerJoined\<close> calls it inside \<open>processEvent\<close>, which
  catches what it throws), then by the direct call of the handler, whose exception
  escapes.
\<close>

definition add_player ::
  "nat \<Rightarrow> string \<Rightarrow> nat \<Rightarrow> string mission_bot \<times> mission \<Rightarrow>
   js_error option \<times> string mission_bot \<times> mission" where
  "add_player runtime_id username now w =
     (case w of (b, ms) \<Rightarrow>
        (let b1 = b\<lparr>players := Map_set runtime_id username (players b)\<rparr>;
             ms1 = snd (handlePlayerJoin username now b1 ms)
         in case handlePlayerJoin username now b1 ms1 of
              (r, ms2) \<Rightarrow> (r, b1, ms2)))"

text \<open>The effects that are calls of \<open>bot.model.generateContent\<close>.\<close>

fun isGenerateContent :: "mission_effect \<Rightarrow> bool" where
  "isGenerateContent (GenerateContent p) = True"
| "isGenerateContent e = False"

section \<open>Scenario states\<close>

text \<open>
  A bot at full health at the origin of the plane \<open>y = 64\<close>, with one zombie five
  blocks away, stored under the runtime id 7 and carrying that id in its \<open>id\<close>
  property.
\<close>

definition zombie_bot :: bot where
  "zombie_bot =
     \<lparr>connected = True, botPosition = \<lparr>px = 0, py = 64, pz = 0\<rparr>, health = 20,
      maxHealth = 20, food = 20,
      entities = [(7, \<lparr>etype = Some ''minecraft:zombie'', eid = Some 7,
                         eposition = Some \<lparr>px = 3, py = 64, pz = 4\<rparr>\<rparr>)],
      debugMode = False, timeDay = None\<rparr>"

text \<open>The element of \<open>getNearbyHostileEntities\<close> for that zombie.\<close>

definition zombie_target :: target where
  "zombie_target =
     \<lparr>ttype = Some ''minecraft:zombie'', tid = 7,
      tposition = Some \<lparr>px = 3, py = 64, pz = 4\<rparr>, tdistance = 5, tthreat = 30\<rparr>"

text \<open>
  A fresh combat manager that has assessed the zombie (threat level \<open>LOW\<close>) and then
  had a retreat cooldown set at time 1000 for the reason \<open>LOW_HEALTH\<close>: the cooldown
  ends at 31000.
\<close>

definition cooldown_combat :: combat where
  "cooldown_combat =
     setRetreatCooldown ''LOW_HEALTH'' 1000 (assessThreatLevel zombie_bot initial_combat)"

text \<open>
  A combat manager in a session with the zombie: with its listeners registered
  (\<open>engaged_combat\<close>, after \<open>onConnect\<close>) and without (\<open>engaged_unregistered\<close>).
\<close>

definition engaged_combat :: combat where
  "engaged_combat =
     initiateCombat 10000 (Inl Error) zombie_bot
       (assessThreatLevel zombie_bot (onConnect initial_combat))"

definition engaged_unregistered :: combat where
  "engaged_unregistered =
     initiateCombat 10000 (Inl Error) zombie_bot (assessThreatLevel zombie_bot initial_combat)"

text \<open>A stand-in for \<open>executeStrategyActions\<close> that does nothing.\<close>

definition idle_act :: "strategy option \<Rightarrow> target \<Rightarrow> combat \<Rightarrow> js_error option \<times> combat" where
  "idle_act s t cm = (None, cm)"



text \<open>
  A handler that throws the given value and touches nothing, and the \<open>Error\<close>
  object of \<open>throw new Error('boom')\<close>.
\<close>

definition boom :: thrown where
  "boom = Thrown \<lparr>emessage = Some ''boom'', ename = Some ''Error''\<rparr>"

definition throwing_handler ::
  "thrown \<Rightarrow> nat list \<Rightarrow> nat list event_manager \<Rightarrow> thrown option \<times> nat list event_manager" where
  "throwing_handler err args em = (Some err, em)"

text \<open>
  A bot whose model throws on every call, with a gameplay manager whose
  \<open>beginResourceGathering\<close> returns normally, and no player yet.
\<close>

definition failing_model_bot :: "string mission_bot" where
  "failing_model_bot =
     \<lparr>model = Some (\<lambda>p. Inl Error), beginResourceGathering = Some None, players = new_Map\<rparr>"

section \<open>Threat assessment: properties\<close>

text \<open>
  C5. A \<open>minecraft:zombie\<close> at distance 5, with bot health 20 of 20 and a combat range
  of 20, has threat \<open>round (30 * (1 - 5/20) * 1) = 23\<close>, and that score is level \<open>LOW\<close>.
\<close>

theorem zombie_threat_scenario:
  "calculateEntityThreat initial_combat zombie_bot (Some ''minecraft:zombie'') (Some 5) = 23 \<and>
   Math_round (30 * (1 - 5 / 20) * 1) = 23 \<and>
   determineThreatLevel
     (real_of_int (calculateEntityThreat initial_combat zombie_bot (Some ''minecraft:zombie'') (Some 5))) = LOW"
proof -
  have r: "Math_round (45 / 2) = 23"
    unfolding Math_round_def by simp
  have t: "calculateEntityThreat initial_combat zombie_bot (Some ''minecraft:zombie'') (Some 5) = 23"
    using r by (simp add: calculateEntityThreat_def baseThreat_def Let_def zombie_bot_def
      initial_combat_def initial_config_def)
  show ?thesis
    using r t by (simp add: determineThreatLevel_def)
qed

text \<open>
  C6. \<open>determineThreatLevel\<close> is total on real scores and gives the level of the highest
  threshold the score reaches, each threshold inclusive at its lower bound; 80 is
  \<open>CRITICAL\<close> and 79.999 is \<open>HIGH\<close>.
\<close>

theorem determineThreatLevel_ladder:
  "(s \<ge> 80 \<longrightarrow> determineThreatLevel s = CRITICAL) \<and>
   (60 \<le> s \<and> s < 80 \<longrightarrow> determineThreatLevel s = HIGH) \<and>
   (40 \<le> s \<and> s < 60 \<longrightarrow> determineThreatLevel s = MEDIUM) \<and>
   (20 \<le> s \<and> s < 40 \<longrightarrow> determineThreatLevel s = LOW) \<and>
   (s < 20 \<longrightarrow> determineThreatLevel s = NONE) \<and>
   determineThreatLevel s \<in> {NONE, LOW, MEDIUM, HIGH, CRITICAL} \<and>
   determineThreatLevel 80 = CRITICAL \<and>
   determineThreatLevel (79999 / 1000) = HIGH"
  by (simp add: determineThreatLevel_def)

theorem determineThreatLevel_ladder_witness:
  "determineThreatLevel 95 = CRITICAL \<and> determineThreatLevel 60 = HIGH \<and>
   determineThreatLevel 40 = MEDIUM \<and> determineThreatLevel 20 = LOW \<and>
   determineThreatLevel (39 / 2) = NONE"
  using determineThreatLevel_ladder [of 95] determineThreatLevel_ladder [of 60]
    determineThreatLevel_ladder [of 40] determineThreatLevel_ladder [of 20]
    determineThreatLevel_ladder [of "39 / 2"]
  by simp

section \<open>CombatManager: frame lemmas\<close>

lemma funpow_frame:
  assumes "\<And>c. g (f c) = g c"
  shows "g ((f ^^ n) c) = g c"
proof (induction n)
  case 0
  show ?case by simp
next
  case (Suc n)
  then show ?case using assms by simp
qed

lemma funpow_fixed: "f c = c \<Longrightarrow> (f ^^ n) c = c"
  by (induction n) simp_all

lemma map_of_delete_same: "map_of (AList.delete k xs) k = None"
  by (simp add: AList.delete_eq map_of_eq_None_iff image_iff)

lemma consult_frame:
  assumes "consultAIForCombatStrategy now ai b t cm = (s, cm')"
  shows "inCombat cm' = inCombat cm" and "currentTarget cm' = currentTarget cm"
    and "registrations cm' = registrations cm" and "combatStats cm' = combatStats cm"
    and "effects cm' = effects cm"
  using assms
  by (auto simp add: consultAIForCombatStrategy_def Let_def
        split: if_splits option.splits sum.splits)

lemma recordCombatStart_frame:
  "inCombat (recordCombatStart now b t cm) = inCombat cm"
  "currentTarget (recordCombatStart now b t cm) = currentTarget cm"
  "registrations (recordCombatStart now b t cm) = registrations cm"
  "combatStats (recordCombatStart now b t cm) = combatStats cm"
  "effects (recordCombatStart now b t cm) = effects cm"
  by (simp_all add: recordCombatStart_def)

lemma initiateCombat_selected:
  "selectOptimalTarget cm b = Some t \<Longrightarrow>
   initiateCombat now ai b cm =
     (let cm1 = cm\<lparr>inCombat := True, currentTarget := Some t, combatStartTime := now\<rparr>;
          (s, cm2) = consultAIForCombatStrategy now ai b t cm1;
          cm3 = cm2\<lparr>currentStrategy := Some s\<rparr>;
          cm4 = cm3\<lparr>effects := effects cm3 @ [Emit_combat_start t]\<rparr>;
          cm5 = (recordCombatStart now b t ^^ registrations cm4) cm4
      in cm5\<lparr>effects := effects cm5 @ [SendChat_engaging (ttype t) (sapproach s)]\<rparr>)"
  by (simp add: initiateCombat_def)

lemma initiateCombat_engages:
  assumes "selectOptimalTarget cm b = Some t"
  shows "inCombat (initiateCombat now ai b cm)"
    and "currentTarget (initiateCombat now ai b cm) = Some t"
    and "registrations (initiateCombat now ai b cm) = registrations cm"
    and "combatStats (initiateCombat now ai b cm) = combatStats cm"
    and "Emit_combat_start t \<in> set (effects (initiateCombat now ai b cm))"
proof -
  let ?cm1 = "cm\<lparr>inCombat := True, currentTarget := Some t, combatStartTime := now\<rparr>"
  obtain s cm2 where c: "consultAIForCombatStrategy now ai b t ?cm1 = (s, cm2)"
    by (cases "consultAIForCombatStrategy now ai b t ?cm1") auto
  note fr = consult_frame [OF c]
  let ?f = "recordCombatStart now b t"
  let ?cm4 = "cm2\<lparr>currentStrategy := Some s, effects := effects cm2 @ [Emit_combat_start t]\<rparr>"
  have eq: "initiateCombat now ai b cm =
      ((?f ^^ registrations cm) ?cm4)
        \<lparr>effects := effects ((?f ^^ registrations cm) ?cm4) @
            [SendChat_engaging (ttype t) (sapproach s)]\<rparr>"
    using c fr(3) by (simp add: initiateCombat_selected [OF assms] Let_def)
  have i: "inCombat ((?f ^^ n) ?cm4) = inCombat ?cm4" for n
    by (rule funpow_frame) (simp add: recordCombatStart_frame)
  have t: "currentTarget ((?f ^^ n) ?cm4) = currentTarget ?cm4" for n
    by (rule funpow_frame) (simp add: recordCombatStart_frame)
  have r: "registrations ((?f ^^ n) ?cm4) = registrations ?cm4" for n
    by (rule funpow_frame) (simp add: recordCombatStart_frame)
  have st: "combatStats ((?f ^^ n) ?cm4) = combatStats ?cm4" for n
    by (rule funpow_frame) (simp add: recordCombatStart_frame)
  have e: "effects ((?f ^^ n) ?cm4) = effects ?cm4" for n
    by (rule funpow_frame) (simp add: recordCombatStart_frame)
  show "inCombat (initiateCombat now ai b cm)"
    unfolding eq using i fr(1) by simp
  show "currentTarget (initiateCombat now ai b cm) = Some t"
    unfolding eq using t fr(2) by simp
  show "registrations (initiateCombat now ai b cm) = registrations cm"
    unfolding eq using r fr(3) by simp
  show "combatStats (initiateCombat now ai b cm) = combatStats cm"
    unfolding eq using st fr(4) by simp
  show "Emit_combat_start t \<in> set (effects (initiateCombat now ai b cm))"
    unfolding eq using e by simp
qed

lemma initiateCombat_stats: "combatStats (initiateCombat now ai b cm) = combatStats cm"
proof (cases "selectOptimalTarget cm b")
  case None
  then show ?thesis by (simp add: initiateCombat_def)
next
  case (Some t)
  then show ?thesis by (rule initiateCombat_engages(4))
qed

section \<open>CombatManager: the scenario states, evaluated\<close>

lemma sqrt25: "sqrt 25 = 5"
  by (rule real_sqrt_unique) simp_all

lemma zombie_distance:
  "calculateDistance (botPosition zombie_bot) (Some \<lparr>px = 3, py = 64, pz = 4\<rparr>) = Some 5"
  by (simp add: calculateDistance_def zombie_bot_def sqrt25)

lemma zombie_raw_threat:
  "config cm = initial_config \<Longrightarrow>
   calculateEntityThreat cm zombie_bot (Some ''minecraft:zombie'') None = 30"
  by (simp add: calculateEntityThreat_def baseThreat_def Math_round_def zombie_bot_def)

lemma zombie_near_threat:
  assumes "config cm = initial_config"
  shows "calculateEntityThreat cm zombie_bot (Some ''minecraft:zombie'') (Some 5) = 23"
proof -
  have r: "Math_round (45 / 2) = 23"
    unfolding Math_round_def by simp
  show ?thesis
    using r assms
    by (simp add: calculateEntityThreat_def baseThreat_def Let_def zombie_bot_def
        initial_config_def)
qed

lemma zombie_nearby:
  assumes "config cm = initial_config"
  shows "getNearbyHostileEntities cm zombie_bot = [zombie_target]"
proof -
  have e: "entities zombie_bot =
      [(7, \<lparr>etype = Some ''minecraft:zombie'', eid = Some 7,
             eposition = Some \<lparr>px = 3, py = 64, pz = 4\<rparr>\<rparr>)]"
    by (simp add: zombie_bot_def)
  have h: "isHostileEntity (Some ''minecraft:zombie'')"
    by (simp add: isHostileEntity_def hostileTypes_def)
  show ?thesis
    using assms h zombie_distance zombie_raw_threat [OF assms]
    by (simp add: getNearbyHostileEntities_def nearbyEntry_def e zombie_target_def
        initial_config_def)
qed

lemma zombie_selected:
  assumes "config cm = initial_config"
  shows "selectOptimalTarget cm zombie_bot = Some zombie_target"
  using zombie_nearby [OF assms] assms
  by (simp add: selectOptimalTarget_def initial_config_def zombie_target_def)

lemma assess_zombie:
  assumes c: "config cm = initial_config" and l: "threatLevel cm = NONE"
  shows "assessThreatLevel zombie_bot cm =
     cm\<lparr>threatLevel := LOW, effects := effects cm @ [Emit_threat_level_changed NONE LOW]\<rparr>"
proof -
  have m: "maxThreatOf cm zombie_bot [zombie_target] = 23"
    using zombie_near_threat [OF c] by (simp add: maxThreatOf_def zombie_target_def)
  show ?thesis
    using m zombie_nearby [OF c] l
    by (simp add: assessThreatLevel_def determineThreatLevel_def Let_def)
qed

lemma cooldown_combat_eq:
  "cooldown_combat =
     initial_combat\<lparr>threatLevel := LOW, effects := [Emit_threat_level_changed NONE LOW],
       retreatCooldownEnd := Some (Timestamp 31000)\<rparr>"
proof -
  have c: "config initial_combat = initial_config" "threatLevel initial_combat = NONE"
    by (simp_all add: initial_combat_def)
  show ?thesis
    unfolding cooldown_combat_def assess_zombie [OF c]
    by (simp add: setRetreatCooldown_def retreatCooldown_def Object_prototype_properties_def
        initial_combat_def)
qed

lemma engaged_combat_eq:
  "engaged_combat =
     initial_combat
       \<lparr>inCombat := True, currentTarget := Some zombie_target,
        currentStrategy := Some (getDefaultStrategy zombie_target),
        combatHistory :=
          [\<lparr>hstartTime = 10000, htarget = Some ''minecraft:zombie'', botHealthStart = 20,
            hstrategy = Some BALANCED, hendTime = None, hduration = None, houtcome = None,
            botHealthEnd = None\<rparr>],
        combatStartTime := 10000, threatLevel := LOW, lastAIConsultation := 10000,
        registrations := 1,
        effects := [Emit_threat_level_changed NONE LOW, Emit_combat_start zombie_target,
                    SendChat_engaging (Some ''minecraft:zombie'') BALANCED]\<rparr>"
proof -
  let ?c0 = "onConnect initial_combat"
  have c0: "config ?c0 = initial_config" "threatLevel ?c0 = NONE"
    by (simp_all add: onConnect_def initial_combat_def)
  let ?c1 = "assessThreatLevel zombie_bot ?c0"
  have c1: "?c1 = initial_combat\<lparr>threatLevel := LOW, registrations := 1,
      effects := [Emit_threat_level_changed NONE LOW]\<rparr>"
    unfolding assess_zombie [OF c0] by (simp add: onConnect_def initial_combat_def)
  have cfg: "config ?c1 = initial_config"
    unfolding c1 by (simp add: initial_combat_def)
  have sel: "selectOptimalTarget ?c1 zombie_bot = Some zombie_target"
    by (rule zombie_selected [OF cfg])
  have "engaged_combat = initiateCombat 10000 (Inl Error) zombie_bot ?c1"
    by (simp add: engaged_combat_def)
  then show ?thesis
    unfolding initiateCombat_selected [OF sel]
    unfolding c1
    by (simp add: consultAIForCombatStrategy_def Let_def initial_combat_def
        recordCombatStart_def zombie_target_def zombie_bot_def getDefaultStrategy_def)
qed

lemma engaged_unregistered_facts:
  "inCombat engaged_unregistered"
  "currentTarget engaged_unregistered = Some zombie_target"
  "registrations engaged_unregistered = 0"
  "combatStats engaged_unregistered = initial_combatStats"
proof -
  have c: "config initial_combat = initial_config" "threatLevel initial_combat = NONE"
    by (simp_all add: initial_combat_def)
  let ?c1 = "assessThreatLevel zombie_bot initial_combat"
  have c1: "?c1 = initial_combat\<lparr>threatLevel := LOW,
      effects := effects initial_combat @ [Emit_threat_level_changed NONE LOW]\<rparr>"
    by (rule assess_zombie [OF c])
  have cfg: "config ?c1 = initial_config"
    unfolding c1 by (simp add: initial_combat_def)
  have sel: "selectOptimalTarget ?c1 zombie_bot = Some zombie_target"
    by (rule zombie_selected [OF cfg])
  note en = initiateCombat_engages [OF sel, of 10000 "Inl Error"]
  show "inCombat engaged_unregistered"
    unfolding engaged_unregistered_def by (rule en(1))
  show "currentTarget engaged_unregistered = Some zombie_target"
    unfolding engaged_unregistered_def by (rule en(2))
  have "registrations engaged_unregistered = registrations ?c1"
    unfolding engaged_unregistered_def by (rule en(3))
  then show "registrations engaged_unregistered = 0"
    unfolding c1 by (simp add: initial_combat_def)
  have "combatStats engaged_unregistered = combatStats ?c1"
    unfolding engaged_unregistered_def by (rule en(4))
  then show "combatStats engaged_unregistered = initial_combatStats"
    unfolding c1 by (simp add: initial_combat_def)
qed

section \<open>CombatManager: statistics\<close>

lemma updateStatistics_invariant:
  "statsInvariant st \<Longrightarrow> statsInvariant (updateStatistics outcome d st)"
  by (simp add: statsInvariant_def updateStatistics_def Let_def)

lemma endCombat_invariant:
  "statsInvariant (combatStats cm) \<Longrightarrow>
   statsInvariant (combatStats (snd (endCombat outcome now b cm)))"
  by (simp add: endCombat_def Let_def updateStatistics_invariant)

lemma executeRetreat_invariant:
  assumes "statsInvariant (combatStats cm)"
  shows "statsInvariant (combatStats (snd (executeRetreat reason now rnd b cm)))"
proof -
  have step: "statsInvariant (combatStats (snd (endCombat ''RETREAT'' now b c)))"
    if "statsInvariant (combatStats c)" for c
    using that by (rule endCombat_invariant)
  show ?thesis
  proof (cases "navigation (cmanagers cm)")
    case None
    then show ?thesis
      using step [OF assms]
      by (cases "endCombat ''RETREAT'' now b cm")
         (auto simp add: executeRetreat_def split: option.splits)
  next
    case (Some mv)
    let ?c = "cm\<lparr>effects := effects cm @ [MoveToPosition (findSafePosition rnd b)]\<rparr>"
    have "statsInvariant (combatStats ?c)" using assms by simp
    from step [OF this] Some assms show ?thesis
      by (cases "endCombat ''RETREAT'' now b ?c")
         (auto simp add: executeRetreat_def Let_def split: option.splits)
  qed
qed

lemma handleEntityRemoved_invariant:
  "statsInvariant (combatStats cm) \<Longrightarrow>
   statsInvariant (combatStats (handleEntityRemoved e now b cm))"
  by (simp add: handleEntityRemoved_def endCombat_invariant split: option.splits)

lemma combat_step_invariant:
  "statsInvariant (combatStats cm) \<Longrightarrow> statsInvariant (combatStats (combat_step cm c))"
  by (cases c)
     (simp_all add: setManagers_def onConnect_def assessThreatLevel_def Let_def
        initiateCombat_stats endCombat_invariant executeRetreat_invariant
        handleEntityRemoved_invariant setRetreatCooldown_def)

lemma foldl_invariant:
  "statsInvariant (combatStats cm) \<Longrightarrow>
   statsInvariant (combatStats (foldl combat_step cm calls))"
  by (induction calls arbitrary: cm) (simp_all add: combat_step_invariant)

text \<open>
  C9. From the initial statistics, after any sequence of calls of the combat manager
  and then one more \<open>endCombat\<close>, with any outcome string (and whether or not that
  call ends by throwing), \<open>totalFights = wins + losses + escapes\<close>.
\<close>

theorem combatStats_invariant:
  "totalFights (combatStats (snd (endCombat outcome now b (combat_run calls)))) =
     wins (combatStats (snd (endCombat outcome now b (combat_run calls)))) +
     losses (combatStats (snd (endCombat outcome now b (combat_run calls)))) +
     escapes (combatStats (snd (endCombat outcome now b (combat_run calls))))"
proof -
  have "statsInvariant (combatStats initial_combat)"
    by (simp add: initial_combat_def initial_combatStats_def statsInvariant_def)
  then have "statsInvariant (combatStats (combat_run calls))"
    unfolding combat_run_def by (rule foldl_invariant)
  then have "statsInvariant (combatStats (snd (endCombat outcome now b (combat_run calls))))"
    by (rule endCombat_invariant)
  then show ?thesis by (simp add: statsInvariant_def)
qed

text \<open>
  C10. While \<open>inCombat\<close> is false, \<open>endCombat\<close> returns at once, for every outcome
  string: the whole state is unchanged, in particular the statistics, the history, the
  current target and the current strategy, and nothing is thrown.
\<close>

theorem endCombat_idle_noop:
  "\<not> inCombat cm \<Longrightarrow>
   endCombat outcome now b cm = (None, cm) \<and>
   combatStats (snd (endCombat outcome now b cm)) = combatStats cm \<and>
   combatHistory (snd (endCombat outcome now b cm)) = combatHistory cm \<and>
   currentTarget (snd (endCombat outcome now b cm)) = currentTarget cm \<and>
   currentStrategy (snd (endCombat outcome now b cm)) = currentStrategy cm"
  by (simp add: endCombat_def)

theorem endCombat_idle_noop_witness:
  "\<not> inCombat initial_combat \<and>
   endCombat ''TARGET_LOST'' 5 zombie_bot initial_combat = (None, initial_combat)"
  using endCombat_idle_noop [of initial_combat "''TARGET_LOST''" 5 zombie_bot]
  by (simp add: initial_combat_def)

section \<open>CombatManager: the engagement state machine\<close>

text \<open>
  C1. The tick does not read the retreat cooldown. In \<open>cooldown_combat\<close> the cooldown
  set at time 1000 is active at time 1100 and \<open>canEngageInCombat\<close> is false, yet the
  tick at 1100 runs \<open>initiateCombat\<close>: \<open>inCombat\<close> becomes true and \<open>combat_start\<close> is
  emitted, whatever the strategy consultation returns.
\<close>

theorem cooldown_ignored_by_tick:
  "cooldownActive 1100 cooldown_combat \<and>
   \<not> inCombat cooldown_combat \<and>
   threatLevel cooldown_combat = LOW \<and>
   \<not> canEngageInCombat 1100 zombie_bot cooldown_combat \<and>
   inCombat (snd (processCombatStateMachine 1100 ai rnd act zombie_bot cooldown_combat)) \<and>
   Emit_combat_start zombie_target \<in>
     set (effects (snd (processCombatStateMachine 1100 ai rnd act zombie_bot cooldown_combat)))"
proof -
  have cfg: "config cooldown_combat = initial_config"
    by (simp add: cooldown_combat_eq initial_combat_def)
  have a: "cooldownActive 1100 cooldown_combat"
    by (simp add: cooldown_combat_eq cooldownActive_def)
  have i: "\<not> inCombat cooldown_combat"
    by (simp add: cooldown_combat_eq initial_combat_def)
  have l: "threatLevel cooldown_combat = LOW"
    by (simp add: cooldown_combat_eq)
  note en = initiateCombat_engages [OF zombie_selected [OF cfg], of 1100 ai]
  show ?thesis
    using a i l en(1) en(5)
    by (simp add: processCombatStateMachine_def canEngageInCombat_def)
qed

text \<open>
  C2, as stated, fails when the removal is delivered to \<open>handleEntityRemoved\<close>: in
  \<open>engaged_combat\<close> the listeners are registered and the zombie carries its id, so the
  \<open>remove_entity\<close> packet ends the session at once as \<open>TARGET_DEFEATED\<close>. After the
  next tick \<open>losses\<close> is unchanged, \<open>wins\<close> is 1 and \<open>killStreak\<close> is 1.
\<close>

theorem target_removed_counterexample:
  "inCombat engaged_combat \<and>
   map_option tid (currentTarget engaged_combat) = Some 7 \<and>
   map_of (entities zombie_bot) 7 \<noteq> None \<and>
   map_of (entities (fst (remove_entity 7 20000 (zombie_bot, engaged_combat)))) 7 = None \<and>
   (let w = remove_entity 7 20000 (zombie_bot, engaged_combat);
        cm = snd (processCombatStateMachine 20100 (Inl Error) (0, 0) idle_act (fst w) (snd w))
    in losses (combatStats cm) = losses (combatStats engaged_combat) \<and>
       wins (combatStats cm) = 1 \<and>
       killStreak (combatStats cm) = 1 \<and>
       houtcome (last (combatHistory cm)) = Some ''TARGET_DEFEATED'')"
proof -
  have e: "map_of (entities zombie_bot) 7 =
      Some \<lparr>etype = Some ''minecraft:zombie'', eid = Some 7,
             eposition = Some \<lparr>px = 3, py = 64, pz = 4\<rparr>\<rparr>"
    by (simp add: zombie_bot_def)
  have w: "remove_entity 7 20000 (zombie_bot, engaged_combat) =
      (zombie_bot\<lparr>entities := []\<rparr>,
       snd (endCombat ''TARGET_DEFEATED'' 20000 zombie_bot engaged_combat))"
    by (simp add: remove_entity_def e handleEntityRemoved_def engaged_combat_eq
        zombie_target_def initial_combat_def)
       (simp add: zombie_bot_def AList.delete_eq)
  have d: "snd (endCombat ''TARGET_DEFEATED'' 20000 zombie_bot engaged_combat) =
      engaged_combat
       \<lparr>inCombat := False,
        combatStats := initial_combatStats
          \<lparr>totalFights := 1, totalCombatTime := 10000, averageFightDuration := 10000,
           wins := 1, killStreak := 1, bestKillStreak := 1\<rparr>,
        combatHistory :=
          [\<lparr>hstartTime = 10000, htarget = Some ''minecraft:zombie'', botHealthStart = 20,
            hstrategy = Some BALANCED, hendTime = Some 20000, hduration = Some 10000,
            houtcome = Some ''TARGET_DEFEATED'', botHealthEnd = Some 20\<rparr>],
        currentTarget := None, currentStrategy := None,
        effects := effects engaged_combat @ [Emit_combat_end ''TARGET_DEFEATED'' 10000]\<rparr>"
    by (simp add: endCombat_def Let_def engaged_combat_eq initial_combat_def
        updateStatistics_def updateCombatHistory_def initial_combatStats_def zombie_bot_def)
  have n: "getNearbyHostileEntities c (zombie_bot\<lparr>entities := []\<rparr>) = []" for c
    by (simp add: getNearbyHostileEntities_def)
  have t: "processCombatStateMachine 20100 (Inl Error) (0, 0) idle_act
        (zombie_bot\<lparr>entities := []\<rparr>)
        (snd (endCombat ''TARGET_DEFEATED'' 20000 zombie_bot engaged_combat)) =
      (None, snd (endCombat ''TARGET_DEFEATED'' 20000 zombie_bot engaged_combat))"
    unfolding d
    by (simp add: processCombatStateMachine_def initiateCombat_def selectOptimalTarget_def n
        engaged_combat_eq)
  show ?thesis
    unfolding w Let_def fst_conv snd_conv t
    by (simp add: d e)
       (simp add: engaged_combat_eq initial_combat_def initial_combatStats_def
          zombie_target_def)
qed

text \<open>
  C2, amended. When the removal of the target's entity leaves the session open (no
  listener is registered, or the removed entity does not carry the target's id), the
  next tick finds the target invalid and ends the session with \<open>TARGET_LOST\<close>:
  \<open>losses\<close> grows by one, \<open>killStreak\<close> is 0, \<open>wins\<close> and \<open>escapes\<close> are unchanged.
\<close>

theorem target_removed_then_lost:
  assumes "inCombat cm" and "currentTarget cm = Some t"
    and "map_of (entities b) (tid t) = Some e"
    and "eid e \<noteq> Some (tid t) \<or> registrations cm = 0"
    and "remove_entity (tid t) now (b, cm) = (b', cm')"
    and "processCombatStateMachine now' ai rnd act b' cm' = (r, cm'')"
  shows "map_of (entities b') (tid t) = None \<and> cm' = cm \<and>
         \<not> inCombat cm'' \<and> currentTarget cm'' = None \<and>
         losses (combatStats cm'') = losses (combatStats cm) + 1 \<and>
         killStreak (combatStats cm'') = 0 \<and>
         wins (combatStats cm'') = wins (combatStats cm) \<and>
         escapes (combatStats cm'') = escapes (combatStats cm) \<and>
         Emit_combat_end ''TARGET_LOST'' (int now' - int (combatStartTime cm))
           \<in> set (effects cm'') \<and>
         (combatHistory cm \<noteq> [] \<longrightarrow>
            houtcome (last (combatHistory cm'')) = Some ''TARGET_LOST'')"
proof -
  have same: "(handleEntityRemoved e now b ^^ registrations cm) cm = cm"
  proof (cases "registrations cm = 0")
    case True
    then show ?thesis by simp
  next
    case False
    with assms(4) have "eid e \<noteq> Some (tid t)" by simp
    then have "handleEntityRemoved e now b cm = cm"
      using assms(2) by (simp add: handleEntityRemoved_def)
    then show ?thesis by (rule funpow_fixed)
  qed
  have b': "b' = b\<lparr>entities := AList.delete (tid t) (entities b)\<rparr>" and cm': "cm' = cm"
    using assms(3,5) same by (simp_all add: remove_entity_def)
  have gone: "map_of (entities b') (tid t) = None"
    by (simp add: b' map_of_delete_same)
  have inv: "\<not> isTargetValid cm b' t"
    using gone by (simp add: isTargetValid_def)
  have tick: "processCombatStateMachine now' ai rnd act b' cm' =
      endCombat ''TARGET_LOST'' now' b' cm"
    using assms(1,2) inv cm'
    by (simp add: processCombatStateMachine_def processCombatActions_def)
  have ec: "endCombat ''TARGET_LOST'' now' b' cm = (r, cm'')"
    using tick assms(6) by simp
  show ?thesis
    using ec assms(1) gone cm'
    by (auto simp add: endCombat_def Let_def updateStatistics_def updateCombatHistory_def
          split: if_splits)
qed

theorem target_removed_then_lost_witness:
  "inCombat engaged_unregistered \<and>
   currentTarget engaged_unregistered = Some zombie_target \<and>
   map_of (entities zombie_bot) (tid zombie_target) \<noteq> None \<and>
   registrations engaged_unregistered = 0 \<and>
   (let w = remove_entity 7 20000 (zombie_bot, engaged_unregistered);
        cm = snd (processCombatStateMachine 20100 (Inl Error) (0, 0) idle_act (fst w) (snd w))
    in \<not> inCombat cm \<and> losses (combatStats cm) = 1 \<and> killStreak (combatStats cm) = 0 \<and>
       wins (combatStats cm) = 0)"
proof -
  have e: "map_of (entities zombie_bot) (tid zombie_target) =
      Some \<lparr>etype = Some ''minecraft:zombie'', eid = Some 7,
             eposition = Some \<lparr>px = 3, py = 64, pz = 4\<rparr>\<rparr>"
    by (simp add: zombie_bot_def zombie_target_def)
  have i7: "tid zombie_target = 7" by (simp add: zombie_target_def)
  note f = engaged_unregistered_facts
  let ?w = "remove_entity (tid zombie_target) 20000 (zombie_bot, engaged_unregistered)"
  let ?r = "processCombatStateMachine 20100 (Inl Error) (0, 0) idle_act (fst ?w) (snd ?w)"
  note th = target_removed_then_lost [OF f(1) f(2) e disjI2 [OF f(3)]
      surjective_pairing surjective_pairing,
      where now = 20000 and now' = 20100 and ai = "Inl Error" and rnd = "(0, 0)"
        and act = idle_act]
  from th have same: "snd ?w = engaged_unregistered"
    by (elim conjE)
  from th have "\<not> inCombat (snd ?r) \<and>
        losses (combatStats (snd ?r)) = losses (combatStats engaged_unregistered) + 1 \<and>
        killStreak (combatStats (snd ?r)) = 0 \<and>
        wins (combatStats (snd ?r)) = wins (combatStats engaged_unregistered)"
    by (elim conjE) (intro conjI)
  then show ?thesis
    using f e by (simp add: i7 Let_def initial_combatStats_def)
qed

section \<open>CombatManager: the battle decision\<close>

lemma shouldEngageInBattle_returns:
  assumes "inventory (cmanagers cm) = None"
  shows "\<exists>d. shouldEngageInBattle cm b t = Inr d"
  using assms
  by (simp add: shouldEngageInBattle_def calculateRiskFactors_def assessResourceRisks_def
      calculateSuccessProbability_def assessEquipmentAdvantage_def getArmorProtection_def
      Let_def split: prod.splits)



section \<open>EventManager: a handler that throws\<close>

text \<open>
  C3, as stated, fails: \<open>processEvent\<close> records the exception of a handler but emits
  no \<open>error\<close> event (nothing is emitted at all), and when the thrown value is
  \<open>null\<close> or \<open>undefined\<close> the \<open>catch\<close> block itself throws a \<open>TypeError\<close>, which
  reaches the caller.
\<close>

theorem handler_error_counterexample:
  "(let r = processEvent ''entity_spawned'' [7] (Some (throwing_handler boom)) [] 100 105
              ''evt_100_abc'' (initial_event_manager False)
    in fst r = None \<and> length (errorEvents (snd r)) = 1 \<and> emitted (snd r) = [] \<and>
       ''error'' \<notin> set (emitted (snd r))) \<and>
   fst (processEvent ''entity_spawned'' [7] (Some (throwing_handler Nullish)) [] 100 105
          ''evt_100_abc'' (initial_event_manager False)) = Some TypeError_thrown"
  by (simp add: processEvent_def beforeHandler_def Let_def throwing_handler_def boom_def
      recordError_def initial_event_manager_def)

text \<open>
  C3, amended. When the handler of a dispatched event throws a value other than
  \<open>null\<close> and \<open>undefined\<close>, \<open>processEvent\<close> returns normally; the error record is
  appended to \<open>errorEvents\<close> and the oldest record is dropped when the buffer would
  exceed \<open>maxErrorEvents\<close>, so a buffer within the cap stays within it; nothing else
  of the state the handler left is changed, and no event is emitted.
\<close>

theorem handler_error_recorded:
  assumes "h args (beforeHandler eventName args mws startTime newId em) = (Some (Thrown info), em5)"
    and "processEvent eventName args (Some h) mws startTime endTime newId em = (r, em')"
  shows "r = None \<and>
         errorEvents em' =
           (if length (errorEvents em5) + 1 > maxErrorEvents (econfig em5)
            then tl (errorEvents em5 @
                   [\<lparr>erevent = eventName, ererror = info, erargs = args,
                     ertimestamp = endTime\<rparr>])
            else errorEvents em5 @
                   [\<lparr>erevent = eventName, ererror = info, erargs = args,
                     ertimestamp = endTime\<rparr>]) \<and>
         (length (errorEvents em5) \<le> maxErrorEvents (econfig em5) \<longrightarrow>
            length (errorEvents em') \<le> maxErrorEvents (econfig em')) \<and>
         emitted em' = emitted em5 \<and>
         em' = em5\<lparr>errorEvents := errorEvents em'\<rparr>"
  using assms
  by (auto simp add: processEvent_def Let_def recordError_def)

theorem handler_error_recorded_witness:
  "(let r = processEvent ''entity_spawned'' [7] (Some (throwing_handler boom)) [] 100 105
              ''evt_100_abc'' (initial_event_manager False)
    in fst r = None \<and>
       errorEvents (snd r) =
         [\<lparr>erevent = ''entity_spawned'',
           ererror = \<lparr>emessage = Some ''boom'', ename = Some ''Error''\<rparr>,
           erargs = [7], ertimestamp = 105\<rparr>])"
proof -
  let ?em = "initial_event_manager False :: nat list event_manager"
  let ?em5 = "beforeHandler ''entity_spawned'' [7] [] 100 ''evt_100_abc'' ?em"
  have h: "throwing_handler boom [7] ?em5 =
      (Some (Thrown \<lparr>emessage = Some ''boom'', ename = Some ''Error''\<rparr>), ?em5)"
    by (simp add: throwing_handler_def boom_def)
  have e: "errorEvents ?em5 = []" "maxErrorEvents (econfig ?em5) = 50"
    by (simp_all add: beforeHandler_def Let_def initial_event_manager_def)
  note th = handler_error_recorded [where h = "throwing_handler boom" and args = "[7]"
      and eventName = "''entity_spawned''" and mws = "[]" and startTime = 100
      and newId = "''evt_100_abc''" and em = ?em and endTime = 105,
      OF h surjective_pairing]
  from th e show ?thesis
    by (simp add: Let_def)
qed

section \<open>MissionManager: start of the mission and research\<close>

lemma startEnderDragonMission_guard:
  "missionStarted ms \<Longrightarrow> startEnderDragonMission now b ms = (None, ms)"
  by (simp add: startEnderDragonMission_def)

text \<open>
  C4. On a fresh mission manager the first \<open>add_player\<close> packet stores the player in
  the map (its size is 1) and calls \<open>handlePlayerJoin\<close>, which starts nothing:
  \<open>Object.keys\<close> of the map is empty, so the mission state is unchanged, the phase
  stays \<open>waiting\<close> and \<open>missionStarted\<close> stays false.
\<close>

theorem first_join_does_not_start_mission:
  "add_player 1 ''Steve'' now
     (\<lparr>model = m, beginResourceGathering = g, players = new_Map\<rparr>, initial_mission) =
     (None,
      \<lparr>model = m, beginResourceGathering = g,
       players = \<lparr>mapEntries = [(1, ''Steve'')], ownProperties = []\<rparr>\<rparr>,
      initial_mission) \<and>
   Map_size (players (fst (snd (add_player 1 ''Steve'' now
     (\<lparr>model = m, beginResourceGathering = g, players = new_Map\<rparr>, initial_mission))))) = 1 \<and>
   currentPhase initial_mission = ''waiting'' \<and> \<not> missionStarted initial_mission"
  by (simp add: add_player_def handlePlayerJoin_def Map_set_def new_Map_def Object_keys_def
      Map_size_def initial_mission_def Let_def)

lemma startPreparationPhase_state:
  assumes "startPreparationPhase now b ms = (r, ms')"
  shows "mresearch ms' = mresearch ms" and "currentPhase ms' = ''preparation''"
    and "filter isGenerateContent (mtrace ms') = filter isGenerateContent (mtrace ms)"
  using assms
  by (auto simp add: startPreparationPhase_def Let_def safeSendChat_def logProgress_def
        split: option.splits)

lemma researchFallback_state:
  assumes "researchFallback now b ms = (r, ms')"
  shows "requiredItems (mresearch ms') = basicItems"
    and "currentGoal (mresearch ms') = basicGoal"
    and "rcurrentStrategy (mresearch ms') = basicStrategy"
    and "currentPhase ms' = ''preparation''"
    and "filter isGenerateContent (mtrace ms') = filter isGenerateContent (mtrace ms)"
  using startPreparationPhase_state [OF assms [unfolded researchFallback_def]]
  by (simp_all add: setBasicStrategy_def safeSendChat_def)

text \<open>
  C8. When the bot has a model and every call of \<open>generateContent\<close> throws,
  \<open>conductEnderDragonResearch\<close> ends with the static item list, goal and strategy
  installed and the phase \<open>preparation\<close>, having called \<open>generateContent\<close> exactly
  once (the research prompt), whether or not \<open>beginResourceGathering\<close> then throws.
\<close>

theorem research_survives_failing_provider:
  assumes "model b = Some generateContent"
    and "\<forall>p. \<exists>err. generateContent p = Inl err"
    and "conductEnderDragonResearch now b ms = (r, ms')"
  shows "requiredItems (mresearch ms') = basicItems \<and>
         currentGoal (mresearch ms') = basicGoal \<and>
         rcurrentStrategy (mresearch ms') = basicStrategy \<and>
         currentPhase ms' = ''preparation'' \<and>
         filter isGenerateContent (mtrace ms') =
           filter isGenerateContent (mtrace ms) @ [GenerateContent ResearchPrompt]"
proof -
  obtain err where e: "generateContent ResearchPrompt = Inl err"
    using assms(2) by blast
  let ?ms2 = "(safeSendChat Researching ms)
      \<lparr>mtrace := mtrace (safeSendChat Researching ms) @ [GenerateContent ResearchPrompt]\<rparr>"
  have "conductEnderDragonResearch now b ms = researchFallback now b ?ms2"
    using assms(1) e by (simp add: conductEnderDragonResearch_def Let_def)
  then have f: "researchFallback now b ?ms2 = (r, ms')"
    using assms(3) by simp
  show ?thesis
    using researchFallback_state [OF f] by (simp add: safeSendChat_def)
qed

theorem research_survives_failing_provider_witness:
  "model failing_model_bot \<noteq> None \<and>
   currentPhase (snd (conductEnderDragonResearch 1000 failing_model_bot initial_mission)) =
     ''preparation'' \<and>
   requiredItems (mresearch (snd (conductEnderDragonResearch 1000 failing_model_bot
     initial_mission))) = basicItems \<and>
   filter isGenerateContent
     (mtrace (snd (conductEnderDragonResearch 1000 failing_model_bot initial_mission))) =
     [GenerateContent ResearchPrompt]"
proof -
  have m: "model failing_model_bot = Some (\<lambda>p. Inl Error)"
    by (simp add: failing_model_bot_def)
  have a: "\<forall>p. \<exists>err. (\<lambda>p. Inl Error :: js_error + string) p = Inl err"
    by simp
  note th = research_survives_failing_provider [OF m a surjective_pairing,
      where now = 1000 and ms = initial_mission]
  from th m show ?thesis
    by (simp add: initial_mission_def)
qed

end
